theory Spec2Isabelle
  imports Main "HOL-Library.Sublist"
begin

section \<open>The price index kernel \<open>expensive\<close>\<close>

text \<open>
  The one function the notebook \<^verbatim>\<open>8W_Dask_Rapids.ipynb\<close> defines:
  \<^verbatim>\<open>
  def expensive(x, price_index):
      for i, price in enumerate(x):
          if price < 50:
              price_index[i] = 0
          elif price < 100:
              price_index[i] = 1
          else:
              price_index[i] = 2
  \<close>
  Both parameters are references to arrays, and the function works by mutating
  \<open>price_index\<close> in place. The model therefore keeps an explicit store of arrays: an
  address names an array, a heap gives each address its contents, and \<open>expensive\<close> takes
  the two addresses and the heap and returns the heap it leaves behind. Nothing in the
  function stops both parameters from naming the same array, and the store model covers
  that call too.

  The \<open>price\<close> column holds integers (the notebook prints 125, 169, 96, ...) and the
  function only compares them with the constants 50 and 100 and stores 0, 1 or 2, so
  array elements are \<open>int\<close>: no arithmetic is done that could overflow.

  An item assignment beyond the end of the target raises \<open>IndexError\<close> in Python; the loop
  over \<open>enumerate(x)\<close> visits the indices \<open>0, 1, ...\<close> for as long as the index is below
  the current length of \<open>x\<close>, reading the element that is in the array at that moment.
\<close>

datatype py_error = IndexError

type_synonym addr = nat

type_synonym heap = "addr \<Rightarrow> int list"

definition no_arrays :: heap where
  "no_arrays = (\<lambda>a. [])"

definition setitem :: "addr \<Rightarrow> nat \<Rightarrow> int \<Rightarrow> heap \<Rightarrow> py_error + heap" where
  "setitem a i v h =
     (if i < length (h a) then Inr (h(a := (h a)[i := v])) else Inl IndexError)"

lemma setitem_length:
  "setitem a i v h = Inr h' \<Longrightarrow> \<forall>b. length (h' b) = length (h b)"
  by (auto simp: setitem_def split: if_splits)

function expensive_loop :: "nat \<Rightarrow> addr \<Rightarrow> addr \<Rightarrow> heap \<Rightarrow> py_error + heap" where
  "expensive_loop i x price_index h =
     (if i < length (h x) then
        (let price = h x ! i in
         case (if price < 50 then setitem price_index i 0 h
               else if price < 100 then setitem price_index i 1 h
               else setitem price_index i 2 h) of
           Inl e \<Rightarrow> Inl e
         | Inr h' \<Rightarrow> expensive_loop (Suc i) x price_index h')
      else Inr h)"
  by pat_completeness auto
termination
  apply (relation "measure (\<lambda>(i, x, price_index, h). length (h x) - i)")
   apply simp
  apply (auto split: if_splits dest: setitem_length)
  done

definition expensive :: "addr \<Rightarrow> addr \<Rightarrow> heap \<Rightarrow> py_error + heap" where
  "expensive x price_index h = expensive_loop 0 x price_index h"

text \<open>
  Heaps to run the kernel on. In \<open>listing_arrays\<close>, \<open>second_arrays\<close> and
  \<open>short_arrays\<close> array 0 holds the prices and array 1 is the output array, which in
  \<open>short_arrays\<close> is shorter than the input; in \<open>shared_array\<close> there is a single array,
  to be passed for both parameters.
\<close>

definition listing_arrays :: heap where
  "listing_arrays = no_arrays(0 := [10, 50, 99, 100, 7], 1 := [9, 9, 9, 9, 9, 9])"


definition short_arrays :: heap where
  "short_arrays = no_arrays(0 := [10, 200, 60], 1 := [7])"

definition shared_array :: heap where
  "shared_array = no_arrays(0 := [60, 10])"


section \<open>The notebook\<close>

text \<open>
  Apart from \<open>expensive\<close>, the notebook's seven code cells are straight-line Python: they
  import names from external libraries (\<open>dask_cuda\<close>, \<open>dask.distributed\<close>, \<open>dask_cudf\<close>,
  \<open>cuml\<close>, \<open>numpy\<close>), call them, call methods of the objects they return, and let Jupyter
  show the value of a cell's last expression. None of that library code belongs to the
  repository, so the model takes the libraries as a parameter. What an operation computes
  (a grouped mean, a fitted model, predictions) is left open: the theorems about the
  notebook hold for every library.

  A Python value, as far as the notebook builds one: an object that a library returned
  (opaque, of a type \<open>'o\<close> the library chooses), a string literal, a list or a dict literal,
  a builtin such as the type \<open>int\<close>, or a function defined in the notebook. The only such
  function is \<open>expensive\<close>.
\<close>

datatype 'o pyval =
    Obj 'o
  | Str string
  | PyList "'o pyval list"
  | PyDict "(string \<times> 'o pyval) list"
  | Builtin string
  | Function "addr \<Rightarrow> addr \<Rightarrow> heap \<Rightarrow> py_error + heap"

text \<open>
  What the notebook asks of the outside: run a shell command (\<^verbatim>\<open>!nvidia-smi\<close>), import a
  module or a name from a module, read an attribute, index an object, call an object.
  Positional arguments come first, keyword arguments second. A method call
  \<^verbatim>\<open>obj.m(args)\<close> is two operations, in Python's order of evaluation: the attribute \<open>m\<close> of
  \<open>obj\<close> is looked up (\<open>Getattr\<close>), then the arguments are evaluated, then the bound
  method that the lookup returned is called (\<open>Call\<close>). In
  \<^verbatim>\<open>df[[...]].astype(np.float32)\<close> the lookup of \<open>astype\<close> therefore comes before the
  lookup of \<open>float32\<close>.
\<close>

datatype 'o ext_op =
    Shell string
  | Import string
  | Import_from string string
  | Getattr "'o pyval" string
  | Getitem "'o pyval" "'o pyval"
  | Call "'o pyval" "'o pyval list" "(string \<times> 'o pyval) list"

text \<open>
  A library answers an operation in a world \<open>'w\<close> (the cluster, the GPUs, the file system):
  it returns an object or raises an exception of type \<open>'e\<close>, and leaves a new world.

  A shell command is not run by a library but by IPython's \<^verbatim>\<open>!\<close>: the command runs in
  a subprocess, what it wrote is printed as the cell's output, and its exit status is
  stored in the variable \<^verbatim>\<open>_exit_code\<close>. No exception is raised, whatever the exit status:
  a command that fails, or that does not exist, prints its message and the cell goes on.
  A shell therefore returns an exit status and the text printed (an object), never an
  exception.

  The session is what a run of the notebook builds up: the world, the number of the cell
  being executed (Jupyter's \<^verbatim>\<open>In [n]\<close>; the notebook file records 1 to 7), the exit status
  of the last shell command, the operations issued so far, each with its cell and its
  outcome, and the values shown as cell output, each with its cell.
\<close>

type_synonym ('o, 'e, 'w) library = "'o ext_op \<Rightarrow> 'w \<Rightarrow> ('e + 'o) \<times> 'w"

type_synonym ('o, 'w) shell = "string \<Rightarrow> 'w \<Rightarrow> (int \<times> 'o) \<times> 'w"

record ('o, 'e, 'w) session =
  world :: 'w
  execution_count :: nat
  exit_code :: "int option"
  events :: "(nat \<times> 'o ext_op \<times> ('e + 'o)) list"
  displayed :: "(nat \<times> 'o pyval) list"

text \<open>
  A piece of notebook code maps a session to a result and a session. \<open>and_then\<close> is
  Python's sequencing inside a cell: when the first part raises, the rest is not run and
  the exception is the result; nothing in the notebook catches an exception, so there is
  no other combinator. \<open>bound\<close> hands on the variables a cell leaves for later cells.
  \<open>ext\<close> issues one operation and records it, \<open>bang\<close> runs a shell command and records
  it, \<open>display\<close> shows a value, \<open>in_cell\<close> runs a cell's code under its execution count.
\<close>

type_synonym ('o, 'e, 'w, 'a) prog =
  "('o, 'e, 'w) session \<Rightarrow> ('e + 'a) \<times> ('o, 'e, 'w) session"

definition start :: "'w \<Rightarrow> ('o, 'e, 'w) session" where
  "start w = \<lparr>world = w, execution_count = 0, exit_code = None, events = [], displayed = []\<rparr>"

definition and_then ::
  "('o, 'e, 'w, 'a) prog \<Rightarrow> ('a \<Rightarrow> ('o, 'e, 'w, 'b) prog) \<Rightarrow> ('o, 'e, 'w, 'b) prog" where
  "and_then m f = (\<lambda>s. case m s of (Inl e, s') \<Rightarrow> (Inl e, s') | (Inr a, s') \<Rightarrow> f a s')"

definition bound :: "'a \<Rightarrow> ('o, 'e, 'w, 'a) prog" where
  "bound a = (\<lambda>s. (Inr a, s))"

definition ext :: "('o, 'e, 'w) library \<Rightarrow> 'o ext_op \<Rightarrow> ('o, 'e, 'w, 'o) prog" where
  "ext lib op = (\<lambda>s. case lib op (world s) of (r, w') \<Rightarrow>
     (r, s\<lparr>world := w', events := events s @ [(execution_count s, op, r)]\<rparr>))"

definition bang :: "('o, 'w) shell \<Rightarrow> string \<Rightarrow> ('o, 'e, 'w, 'o) prog" where
  "bang sh cmd = (\<lambda>s. case sh cmd (world s) of ((status, out), w') \<Rightarrow>
     (Inr out, s\<lparr>world := w', exit_code := Some status,
                events := events s @ [(execution_count s, Shell cmd, Inr out)]\<rparr>))"

definition display :: "'o pyval \<Rightarrow> ('o, 'e, 'w, unit) prog" where
  "display v = (\<lambda>s. (Inr (), s\<lparr>displayed := displayed s @ [(execution_count s, v)]\<rparr>))"

definition in_cell :: "nat \<Rightarrow> ('o, 'e, 'w, 'a) prog \<Rightarrow> ('o, 'e, 'w, 'a) prog" where
  "in_cell n m = (\<lambda>s. m (s\<lparr>execution_count := n\<rparr>))"

text \<open>
  The seven code cells. Bound variables carry the notebook's variable names, and the
  name of the method for the bound method that a lookup returns; a cell returns the
  variables that later cells read.
  \<^verbatim>\<open>
  In [1]: !nvidia-smi
  In [2]: from dask_cuda import LocalCUDACluster
          from dask.distributed import Client
          cluster = LocalCUDACluster()
          client = Client(cluster)
  In [3]: import dask_cudf
          df = dask_cudf.read_csv('listings*.csv')
          df.head()
  In [4]: df.groupby(['neighbourhood', 'room_type']).price.mean().compute()
  In [5]: def expensive(x, price_index): ...
          df = df.apply_rows(expensive, incols={'price':'x'}, outcols={'price_index': int})
          df[['price', 'price_index']].head()
  In [6]: from cuml.dask.linear_model import LinearRegression
          import numpy as np
          X = df[['reviews_per_month', 'minimum_nights']].astype(np.float32).dropna()
          y = df[['price']].astype(np.float32).dropna()
          fit = LinearRegression().fit(X, y)
  In [7]: df_nyc = dask_cudf.read_csv('test*.csv')
          X_test = df_nyc[['reviews_per_month', 'minimum_nights']].astype(np.float32).dropna()
          fit.predict(X_test).compute().head()
  \<close>
\<close>

definition cell_1 :: "('o, 'w) shell \<Rightarrow> ('o, 'e, 'w, unit) prog" where
  "cell_1 sh = in_cell 1 (
     and_then (bang sh ''nvidia-smi'') (\<lambda>out.
     display (Obj out)))"

definition cell_2 :: "('o, 'e, 'w) library \<Rightarrow> ('o, 'e, 'w, 'o \<times> 'o) prog" where
  "cell_2 lib = in_cell 2 (
     and_then (ext lib (Import_from ''dask_cuda'' ''LocalCUDACluster'')) (\<lambda>LocalCUDACluster.
     and_then (ext lib (Import_from ''dask.distributed'' ''Client'')) (\<lambda>Client.
     and_then (ext lib (Call (Obj LocalCUDACluster) [] [])) (\<lambda>cluster.
     and_then (ext lib (Call (Obj Client) [Obj cluster] [])) (\<lambda>client.
     bound (cluster, client))))))"

definition cell_3 :: "('o, 'e, 'w) library \<Rightarrow> ('o, 'e, 'w, 'o \<times> 'o) prog" where
  "cell_3 lib = in_cell 3 (
     and_then (ext lib (Import ''dask_cudf'')) (\<lambda>dask_cudf.
     and_then (ext lib (Getattr (Obj dask_cudf) ''read_csv'')) (\<lambda>read_csv.
     and_then (ext lib (Call (Obj read_csv) [Str ''listings*.csv''] [])) (\<lambda>df.
     and_then (ext lib (Getattr (Obj df) ''head'')) (\<lambda>head.
     and_then (ext lib (Call (Obj head) [] [])) (\<lambda>out.
     and_then (display (Obj out)) (\<lambda>_.
     bound (dask_cudf, df))))))))"

definition cell_4 :: "('o, 'e, 'w) library \<Rightarrow> 'o \<Rightarrow> ('o, 'e, 'w, unit) prog" where
  "cell_4 lib df = in_cell 4 (
     and_then (ext lib (Getattr (Obj df) ''groupby'')) (\<lambda>groupby.
     and_then (ext lib (Call (Obj groupby) [PyList [Str ''neighbourhood'', Str ''room_type'']] [])) (\<lambda>grouped.
     and_then (ext lib (Getattr (Obj grouped) ''price'')) (\<lambda>price.
     and_then (ext lib (Getattr (Obj price) ''mean'')) (\<lambda>mean.
     and_then (ext lib (Call (Obj mean) [] [])) (\<lambda>means.
     and_then (ext lib (Getattr (Obj means) ''compute'')) (\<lambda>compute.
     and_then (ext lib (Call (Obj compute) [] [])) (\<lambda>out.
     display (Obj out)))))))))"

definition cell_5 :: "('o, 'e, 'w) library \<Rightarrow> 'o \<Rightarrow> ('o, 'e, 'w, 'o) prog" where
  "cell_5 lib df = in_cell 5 (
     and_then (ext lib (Getattr (Obj df) ''apply_rows'')) (\<lambda>apply_rows.
     and_then (ext lib (Call (Obj apply_rows) [Function expensive]
         [(''incols'', PyDict [(''price'', Str ''x'')]), (''outcols'', PyDict [(''price_index'', Builtin ''int'')])])) (\<lambda>df.
     and_then (ext lib (Getitem (Obj df) (PyList [Str ''price'', Str ''price_index'']))) (\<lambda>cols.
     and_then (ext lib (Getattr (Obj cols) ''head'')) (\<lambda>head.
     and_then (ext lib (Call (Obj head) [] [])) (\<lambda>out.
     and_then (display (Obj out)) (\<lambda>_.
     bound df)))))))"

definition cell_6 ::
  "('o, 'e, 'w) library \<Rightarrow> 'o \<Rightarrow> ('o, 'e, 'w, 'o \<times> 'o) prog" where
  "cell_6 lib df = in_cell 6 (
     and_then (ext lib (Import_from ''cuml.dask.linear_model'' ''LinearRegression'')) (\<lambda>LinearRegression.
     and_then (ext lib (Import ''numpy'')) (\<lambda>np.
     and_then (ext lib (Getitem (Obj df) (PyList [Str ''reviews_per_month'', Str ''minimum_nights'']))) (\<lambda>cols.
     and_then (ext lib (Getattr (Obj cols) ''astype'')) (\<lambda>astype.
     and_then (ext lib (Getattr (Obj np) ''float32'')) (\<lambda>float32.
     and_then (ext lib (Call (Obj astype) [Obj float32] [])) (\<lambda>cast.
     and_then (ext lib (Getattr (Obj cast) ''dropna'')) (\<lambda>dropna.
     and_then (ext lib (Call (Obj dropna) [] [])) (\<lambda>X.
     and_then (ext lib (Getitem (Obj df) (PyList [Str ''price'']))) (\<lambda>cols.
     and_then (ext lib (Getattr (Obj cols) ''astype'')) (\<lambda>astype.
     and_then (ext lib (Getattr (Obj np) ''float32'')) (\<lambda>float32.
     and_then (ext lib (Call (Obj astype) [Obj float32] [])) (\<lambda>cast.
     and_then (ext lib (Getattr (Obj cast) ''dropna'')) (\<lambda>dropna.
     and_then (ext lib (Call (Obj dropna) [] [])) (\<lambda>y.
     and_then (ext lib (Call (Obj LinearRegression) [] [])) (\<lambda>model.
     and_then (ext lib (Getattr (Obj model) ''fit'')) (\<lambda>fit_method.
     and_then (ext lib (Call (Obj fit_method) [Obj X, Obj y] [])) (\<lambda>fit.
     bound (np, fit)))))))))))))))))))"

definition cell_7 ::
  "('o, 'e, 'w) library \<Rightarrow> 'o \<Rightarrow> 'o \<Rightarrow> 'o \<Rightarrow> ('o, 'e, 'w, unit) prog" where
  "cell_7 lib dask_cudf np fit = in_cell 7 (
     and_then (ext lib (Getattr (Obj dask_cudf) ''read_csv'')) (\<lambda>read_csv.
     and_then (ext lib (Call (Obj read_csv) [Str ''test*.csv''] [])) (\<lambda>df_nyc.
     and_then (ext lib (Getitem (Obj df_nyc) (PyList [Str ''reviews_per_month'', Str ''minimum_nights'']))) (\<lambda>cols.
     and_then (ext lib (Getattr (Obj cols) ''astype'')) (\<lambda>astype.
     and_then (ext lib (Getattr (Obj np) ''float32'')) (\<lambda>float32.
     and_then (ext lib (Call (Obj astype) [Obj float32] [])) (\<lambda>cast.
     and_then (ext lib (Getattr (Obj cast) ''dropna'')) (\<lambda>dropna.
     and_then (ext lib (Call (Obj dropna) [] [])) (\<lambda>X_test.
     and_then (ext lib (Getattr (Obj fit) ''predict'')) (\<lambda>predict.
     and_then (ext lib (Call (Obj predict) [Obj X_test] [])) (\<lambda>predicted.
     and_then (ext lib (Getattr (Obj predicted) ''compute'')) (\<lambda>compute.
     and_then (ext lib (Call (Obj compute) [] [])) (\<lambda>computed.
     and_then (ext lib (Getattr (Obj computed) ''head'')) (\<lambda>head.
     and_then (ext lib (Call (Obj head) [] [])) (\<lambda>out.
     display (Obj out))))))))))))))))"

text \<open>
  The notebook file holds cells, not a main program: which cells are run, and what
  happens after a cell has failed, is decided by whoever runs it. \<open>notebook\<close> is the run
  of all seven cells top to bottom, each once, by a runner that stops at the first cell
  that fails, as Jupyter's Run All and \<^verbatim>\<open>nbconvert --execute\<close> do.
\<close>

definition notebook :: "('o, 'w) shell \<Rightarrow> ('o, 'e, 'w) library \<Rightarrow> ('o, 'e, 'w, unit) prog" where
  "notebook sh lib =
     and_then (cell_1 sh) (\<lambda>_.
     and_then (cell_2 lib) (\<lambda>(cluster, client).
     and_then (cell_3 lib) (\<lambda>(dask_cudf, df).
     and_then (cell_4 lib df) (\<lambda>_.
     and_then (cell_5 lib df) (\<lambda>df.
     and_then (cell_6 lib df) (\<lambda>(np, fit).
     cell_7 lib dask_cudf np fit))))))"

text \<open>
  Shells and libraries to run the notebook against. \<open>numbering\<close> never raises and
  returns a fresh object for every operation: the \<open>n\<close>-th operation (counting from 0)
  returns object \<open>n\<close>, so that an object in a later operation shows which operation
  produced it. \<open>raising_at k\<close> does the same but raises at operation \<open>k\<close>.
  \<open>numbering_shell\<close> is a shell whose commands succeed (exit status 0), \<open>failing_shell\<close>
  one whose commands fail with exit status 127, the status of a command that is not
  installed; both number what they print like \<open>numbering\<close>.
\<close>

definition numbering :: "(nat, 'e, nat) library" where
  "numbering op n = (Inr n, Suc n)"

definition raising_at :: "nat \<Rightarrow> (nat, nat, nat) library" where
  "raising_at k op n = (if n = k then Inl n else Inr n, Suc n)"

definition numbering_shell :: "(nat, nat) shell" where
  "numbering_shell cmd n = ((0, n), Suc n)"

definition failing_shell :: "(nat, nat) shell" where
  "failing_shell cmd n = ((127, n), Suc n)"

text \<open>
  The operations of the notebook as they stand in its source, cell by cell, with every
  library object written \<open>Obj ()\<close>.
\<close>

definition cell_1_ops :: "unit ext_op list" where
  "cell_1_ops = [Shell ''nvidia-smi'']"

definition cell_2_ops :: "unit ext_op list" where
  "cell_2_ops =
    [Import_from ''dask_cuda'' ''LocalCUDACluster'',
     Import_from ''dask.distributed'' ''Client'',
     Call (Obj ()) [] [],
     Call (Obj ()) [Obj ()] []]"

definition cell_3_ops :: "unit ext_op list" where
  "cell_3_ops =
    [Import ''dask_cudf'',
     Getattr (Obj ()) ''read_csv'',
     Call (Obj ()) [Str ''listings*.csv''] [],
     Getattr (Obj ()) ''head'',
     Call (Obj ()) [] []]"

definition cell_4_ops :: "unit ext_op list" where
  "cell_4_ops =
    [Getattr (Obj ()) ''groupby'',
     Call (Obj ()) [PyList [Str ''neighbourhood'', Str ''room_type'']] [],
     Getattr (Obj ()) ''price'',
     Getattr (Obj ()) ''mean'',
     Call (Obj ()) [] [],
     Getattr (Obj ()) ''compute'',
     Call (Obj ()) [] []]"

definition cell_5_ops :: "unit ext_op list" where
  "cell_5_ops =
    [Getattr (Obj ()) ''apply_rows'',
     Call (Obj ()) [Function expensive]
         [(''incols'', PyDict [(''price'', Str ''x'')]),
             (''outcols'', PyDict [(''price_index'', Builtin ''int'')])],
     Getitem (Obj ()) (PyList [Str ''price'', Str ''price_index'']),
     Getattr (Obj ()) ''head'',
     Call (Obj ()) [] []]"

definition cell_6_ops :: "unit ext_op list" where
  "cell_6_ops =
    [Import_from ''cuml.dask.linear_model'' ''LinearRegression'',
     Import ''numpy'',
     Getitem (Obj ()) (PyList [Str ''reviews_per_month'', Str ''minimum_nights'']),
     Getattr (Obj ()) ''astype'',
     Getattr (Obj ()) ''float32'',
     Call (Obj ()) [Obj ()] [],
     Getattr (Obj ()) ''dropna'',
     Call (Obj ()) [] [],
     Getitem (Obj ()) (PyList [Str ''price'']),
     Getattr (Obj ()) ''astype'',
     Getattr (Obj ()) ''float32'',
     Call (Obj ()) [Obj ()] [],
     Getattr (Obj ()) ''dropna'',
     Call (Obj ()) [] [],
     Call (Obj ()) [] [],
     Getattr (Obj ()) ''fit'',
     Call (Obj ()) [Obj (), Obj ()] []]"

definition cell_7_ops :: "unit ext_op list" where
  "cell_7_ops =
    [Getattr (Obj ()) ''read_csv'',
     Call (Obj ()) [Str ''test*.csv''] [],
     Getitem (Obj ()) (PyList [Str ''reviews_per_month'', Str ''minimum_nights'']),
     Getattr (Obj ()) ''astype'',
     Getattr (Obj ()) ''float32'',
     Call (Obj ()) [Obj ()] [],
     Getattr (Obj ()) ''dropna'',
     Call (Obj ()) [] [],
     Getattr (Obj ()) ''predict'',
     Call (Obj ()) [Obj ()] [],
     Getattr (Obj ()) ''compute'',
     Call (Obj ()) [] [],
     Getattr (Obj ()) ''head'',
     Call (Obj ()) [] []]"

definition notebook_ops :: "(nat \<times> unit ext_op) list" where
  "notebook_ops =
     map (Pair 1) cell_1_ops @ map (Pair 2) cell_2_ops @ map (Pair 3) cell_3_ops @
     map (Pair 4) cell_4_ops @ map (Pair 5) cell_5_ops @ map (Pair 6) cell_6_ops @
     map (Pair 7) cell_7_ops"

text \<open>
  The same operations with the flow of objects written out. \<open>\<sigma> k\<close> stands for the
  object that operation \<open>k\<close> returns (counting from 0), so that \<open>Obj (\<sigma> 7)\<close> in a later
  operation is the frame that \<open>read_csv\<close> returned; \<open>returned s k\<close> reads that object
  off the operations recorded in a session.
\<close>

definition returned :: "('o, 'e, 'w) session \<Rightarrow> nat \<Rightarrow> 'o" where
  "returned s k = projr (snd (snd (events s ! k)))"

definition listing :: "(nat \<Rightarrow> 'o) \<Rightarrow> (nat \<times> 'o ext_op \<times> ('e + 'o)) list" where
  "listing \<sigma> =
       [(1, Shell ''nvidia-smi'', Inr (\<sigma> 0)),
        (2, Import_from ''dask_cuda'' ''LocalCUDACluster'', Inr (\<sigma> 1)),
        (2, Import_from ''dask.distributed'' ''Client'', Inr (\<sigma> 2)),
        (2, Call (Obj (\<sigma> 1)) [] [], Inr (\<sigma> 3)),
        (2, Call (Obj (\<sigma> 2)) [Obj (\<sigma> 3)] [], Inr (\<sigma> 4)),
        (3, Import ''dask_cudf'', Inr (\<sigma> 5)),
        (3, Getattr (Obj (\<sigma> 5)) ''read_csv'', Inr (\<sigma> 6)),
        (3, Call (Obj (\<sigma> 6)) [Str ''listings*.csv''] [], Inr (\<sigma> 7)),
        (3, Getattr (Obj (\<sigma> 7)) ''head'', Inr (\<sigma> 8)),
        (3, Call (Obj (\<sigma> 8)) [] [], Inr (\<sigma> 9)),
        (4, Getattr (Obj (\<sigma> 7)) ''groupby'', Inr (\<sigma> 10)),
        (4, Call (Obj (\<sigma> 10)) [PyList [Str ''neighbourhood'', Str ''room_type'']] [],
            Inr (\<sigma> 11)),
        (4, Getattr (Obj (\<sigma> 11)) ''price'', Inr (\<sigma> 12)),
        (4, Getattr (Obj (\<sigma> 12)) ''mean'', Inr (\<sigma> 13)),
        (4, Call (Obj (\<sigma> 13)) [] [], Inr (\<sigma> 14)),
        (4, Getattr (Obj (\<sigma> 14)) ''compute'', Inr (\<sigma> 15)),
        (4, Call (Obj (\<sigma> 15)) [] [], Inr (\<sigma> 16)),
        (5, Getattr (Obj (\<sigma> 7)) ''apply_rows'', Inr (\<sigma> 17)),
        (5, Call (Obj (\<sigma> 17)) [Function expensive]
            [(''incols'', PyDict [(''price'', Str ''x'')]),
                (''outcols'', PyDict [(''price_index'', Builtin ''int'')])], Inr (\<sigma> 18)),
        (5, Getitem (Obj (\<sigma> 18)) (PyList [Str ''price'', Str ''price_index'']),
            Inr (\<sigma> 19)),
        (5, Getattr (Obj (\<sigma> 19)) ''head'', Inr (\<sigma> 20)),
        (5, Call (Obj (\<sigma> 20)) [] [], Inr (\<sigma> 21)),
        (6, Import_from ''cuml.dask.linear_model'' ''LinearRegression'', Inr (\<sigma> 22)),
        (6, Import ''numpy'', Inr (\<sigma> 23)),
        (6,
            Getitem (Obj (\<sigma> 18)) (PyList [Str ''reviews_per_month'',
                Str ''minimum_nights'']), Inr (\<sigma> 24)),
        (6, Getattr (Obj (\<sigma> 24)) ''astype'', Inr (\<sigma> 25)),
        (6, Getattr (Obj (\<sigma> 23)) ''float32'', Inr (\<sigma> 26)),
        (6, Call (Obj (\<sigma> 25)) [Obj (\<sigma> 26)] [], Inr (\<sigma> 27)),
        (6, Getattr (Obj (\<sigma> 27)) ''dropna'', Inr (\<sigma> 28)),
        (6, Call (Obj (\<sigma> 28)) [] [], Inr (\<sigma> 29)),
        (6, Getitem (Obj (\<sigma> 18)) (PyList [Str ''price'']), Inr (\<sigma> 30)),
        (6, Getattr (Obj (\<sigma> 30)) ''astype'', Inr (\<sigma> 31)),
        (6, Getattr (Obj (\<sigma> 23)) ''float32'', Inr (\<sigma> 32)),
        (6, Call (Obj (\<sigma> 31)) [Obj (\<sigma> 32)] [], Inr (\<sigma> 33)),
        (6, Getattr (Obj (\<sigma> 33)) ''dropna'', Inr (\<sigma> 34)),
        (6, Call (Obj (\<sigma> 34)) [] [], Inr (\<sigma> 35)),
        (6, Call (Obj (\<sigma> 22)) [] [], Inr (\<sigma> 36)),
        (6, Getattr (Obj (\<sigma> 36)) ''fit'', Inr (\<sigma> 37)),
        (6, Call (Obj (\<sigma> 37)) [Obj (\<sigma> 29), Obj (\<sigma> 35)] [], Inr (\<sigma> 38)),
        (7, Getattr (Obj (\<sigma> 5)) ''read_csv'', Inr (\<sigma> 39)),
        (7, Call (Obj (\<sigma> 39)) [Str ''test*.csv''] [], Inr (\<sigma> 40)),
        (7,
            Getitem (Obj (\<sigma> 40)) (PyList [Str ''reviews_per_month'',
                Str ''minimum_nights'']), Inr (\<sigma> 41)),
        (7, Getattr (Obj (\<sigma> 41)) ''astype'', Inr (\<sigma> 42)),
        (7, Getattr (Obj (\<sigma> 23)) ''float32'', Inr (\<sigma> 43)),
        (7, Call (Obj (\<sigma> 42)) [Obj (\<sigma> 43)] [], Inr (\<sigma> 44)),
        (7, Getattr (Obj (\<sigma> 44)) ''dropna'', Inr (\<sigma> 45)),
        (7, Call (Obj (\<sigma> 45)) [] [], Inr (\<sigma> 46)),
        (7, Getattr (Obj (\<sigma> 38)) ''predict'', Inr (\<sigma> 47)),
        (7, Call (Obj (\<sigma> 47)) [Obj (\<sigma> 46)] [], Inr (\<sigma> 48)),
        (7, Getattr (Obj (\<sigma> 48)) ''compute'', Inr (\<sigma> 49)),
        (7, Call (Obj (\<sigma> 49)) [] [], Inr (\<sigma> 50)),
        (7, Getattr (Obj (\<sigma> 50)) ''head'', Inr (\<sigma> 51)),
        (7, Call (Obj (\<sigma> 51)) [] [], Inr (\<sigma> 52))]"

text \<open>
  \<open>skeleton\<close> forgets the objects and the outcome of a recorded operation, \<open>raised\<close> says
  that it raised, and \<open>functions_passed\<close> lists the notebook-defined functions among the
  arguments of an operation.
\<close>

definition skeleton :: "nat \<times> 'o ext_op \<times> ('e + 'o) \<Rightarrow> nat \<times> unit ext_op" where
  "skeleton ev = (fst ev, map_ext_op (\<lambda>_. ()) (fst (snd ev)))"

definition raised :: "nat \<times> 'o ext_op \<times> ('e + 'o) \<Rightarrow> bool" where
  "raised ev = isl (snd (snd ev))"

primrec functions_in :: "'o pyval \<Rightarrow> (addr \<Rightarrow> addr \<Rightarrow> heap \<Rightarrow> py_error + heap) list" where
  "functions_in (Obj ob) = []"
| "functions_in (Str s) = []"
| "functions_in (PyList vs) = concat (map functions_in vs)"
| "functions_in (PyDict kvs) = concat (map snd (map (map_prod id functions_in) kvs))"
| "functions_in (Builtin b) = []"
| "functions_in (Function f) = [f]"

fun functions_passed :: "'o ext_op \<Rightarrow> (addr \<Rightarrow> addr \<Rightarrow> heap \<Rightarrow> py_error + heap) list" where
  "functions_passed (Shell c) = []"
| "functions_passed (Import m) = []"
| "functions_passed (Import_from m n) = []"
| "functions_passed (Getattr v a) = functions_in v"
| "functions_passed (Getitem v k) = functions_in v @ functions_in k"
| "functions_passed (Call c args kwargs) =
     functions_in c @ concat (map functions_in args) @ concat (map (functions_in \<circ> snd) kwargs)"

text \<open>
  What it means for a piece of code to be a straight line of operations.
  \<open>outcome_ok L r new\<close> says that the operations \<open>new\<close> it issued follow the listing \<open>L\<close>:
  all of \<open>L\<close>, in order, none raising, when the code returns; an initial part of \<open>L\<close>, of
  which the last operation raised and no other, with that exception as the result, when
  it does not. So the code issues the operations of \<open>L\<close> one after the other, whatever
  they return, and stops at the first that raises. \<open>issues n m sk\<close> is this for code \<open>m\<close>
  inside cell \<open>n\<close>, from every session; \<open>straight_line m L\<close> for whole cells and for the
  notebook.

  \<open>stops_at_raise m\<close> keeps of this what concerns exceptions: from every session, an
  operation of \<open>m\<close> that raises is the last one \<open>m\<close> issues and its exception is the result of
  \<open>m\<close> (it is not caught and nothing runs after it, so nothing is attempted again), and
  \<open>m\<close> fails only with the exception of its last operation.
\<close>

definition outcome_ok ::
  "(nat \<times> unit ext_op) list \<Rightarrow> 'e + 'a \<Rightarrow> (nat \<times> 'o ext_op \<times> ('e + 'o)) list \<Rightarrow> bool" where
  "outcome_ok L r new \<longleftrightarrow>
     prefix (map skeleton new) L \<and>
     (case r of
        Inr a \<Rightarrow> map skeleton new = L \<and> (\<forall>ev \<in> set new. \<not> raised ev)
      | Inl e \<Rightarrow> new \<noteq> [] \<and> snd (snd (last new)) = Inl e \<and>
                 (\<forall>ev \<in> set (butlast new). \<not> raised ev))"

definition issues :: "nat \<Rightarrow> ('o, 'e, 'w, 'a) prog \<Rightarrow> unit ext_op list \<Rightarrow> bool" where
  "issues n m sk \<longleftrightarrow>
     (\<forall>s. execution_count s = n \<longrightarrow>
        (\<exists>new. events (snd (m s)) = events s @ new \<and> execution_count (snd (m s)) = n \<and>
               outcome_ok (map (Pair n) sk) (fst (m s)) new))"

definition straight_line :: "('o, 'e, 'w, 'a) prog \<Rightarrow> (nat \<times> unit ext_op) list \<Rightarrow> bool" where
  "straight_line m L \<longleftrightarrow>
     (\<forall>s. \<exists>new. events (snd (m s)) = events s @ new \<and> outcome_ok L (fst (m s)) new)"

definition stops_at_raise :: "('o, 'e, 'w, 'a) prog \<Rightarrow> bool" where
  "stops_at_raise m \<longleftrightarrow>
     (\<forall>s. \<exists>new. events (snd (m s)) = events s @ new \<and>
        (\<forall>i e. i < length new \<and> snd (snd (new ! i)) = Inl e \<longrightarrow>
           Suc i = length new \<and> fst (m s) = Inl e) \<and>
        (\<forall>e. fst (m s) = Inl e \<longrightarrow> new \<noteq> [] \<and> snd (snd (last new)) = Inl e))"

section \<open>Properties of \<open>expensive\<close>\<close>

declare expensive_loop.simps [simp del]

lemma expensive_loop_done:
  "\<not> i < length (h x) \<Longrightarrow> expensive_loop i x p h = Inr h"
  by (subst expensive_loop.simps) simp

lemma expensive_loop_store:
  "i < length (h x) \<Longrightarrow> i < length (h p) \<Longrightarrow>
   expensive_loop i x p h =
     expensive_loop (Suc i) x p
       (h(p := (h p)[i := (if h x ! i < 50 then 0 else if h x ! i < 100 then 1 else 2)]))"
  by (subst expensive_loop.simps) (simp add: Let_def setitem_def)

lemma expensive_loop_out_of_range:
  "i < length (h x) \<Longrightarrow> \<not> i < length (h p) \<Longrightarrow> expensive_loop i x p h = Inl IndexError"
  by (subst expensive_loop.simps) (simp add: Let_def setitem_def)

text \<open>
  The loop invariant, for a run that starts at index \<open>i\<close> and returns: lengths are kept,
  only the array \<open>p\<close> changes, its entries below \<open>i\<close> and from the length of \<open>x\<close> on are
  kept, and every entry between is the class of the price that was in \<open>x\<close> at the start.
  It holds when \<open>x\<close> and \<open>p\<close> are the same array as well: index \<open>j\<close> is read before it
  is written, and writes at other indices do not touch it.
\<close>

lemma expensive_loop_spec:
  "expensive_loop i x p h = Inr h' \<Longrightarrow>
     (\<forall>a. length (h' a) = length (h a)) \<and>
     (\<forall>a. a \<noteq> p \<longrightarrow> h' a = h a) \<and>
     (\<forall>j. j < i \<longrightarrow> h' p ! j = h p ! j) \<and>
     (\<forall>j. i \<le> j \<and> j < length (h x) \<longrightarrow>
        h' p ! j = (if h x ! j < 50 then 0 else if h x ! j < 100 then 1 else 2)) \<and>
     (\<forall>j. length (h x) \<le> j \<longrightarrow> h' p ! j = h p ! j)"
proof (induction i x p h rule: expensive_loop.induct)
  case (1 i x p h)
  show ?case
  proof (cases "i < length (h x)")
    case False
    with "1.prems" have "h' = h" by (simp add: expensive_loop_done)
    with False show ?thesis by simp
  next
    case True
    let ?v = "if h x ! i < 50 then 0 else if h x ! i < 100 then (1::int) else 2"
    let ?h1 = "h(p := (h p)[i := ?v])"
    have ip: "i < length (h p)"
      using "1.prems" True expensive_loop_out_of_range[of i h x p] by auto
    have rec: "expensive_loop (Suc i) x p ?h1 = Inr h'"
      using "1.prems" expensive_loop_store[OF True ip] by simp
    have st: "(if h x ! i < 50 then setitem p i 0 h
               else if h x ! i < 100 then setitem p i 1 h else setitem p i 2 h) = Inr ?h1"
      using ip by (simp add: setitem_def)
    note IH = "1.IH"[OF True refl st rec]
    have len1: "length (?h1 a) = length (h a)" for a by simp
    have x1: "j \<noteq> i \<Longrightarrow> ?h1 x ! j = h x ! j" for j by simp
    have lenx: "length (?h1 x) = length (h x)" by simp
    show ?thesis
    proof (intro conjI allI impI)
      fix a show "length (h' a) = length (h a)" using IH len1 by simp
    next
      fix a assume "a \<noteq> p" then show "h' a = h a" using IH by simp
    next
      fix j assume "j < i"
      then have "h' p ! j = ?h1 p ! j" using IH by simp
      with \<open>j < i\<close> show "h' p ! j = h p ! j" by simp
    next
      fix j assume j: "i \<le> j \<and> j < length (h x)"
      show "h' p ! j = (if h x ! j < 50 then 0 else if h x ! j < 100 then 1 else 2)"
      proof (cases "j = i")
        case True
        have "h' p ! i = ?h1 p ! i" using IH by simp
        with ip True show ?thesis by simp
      next
        case False
        with j have "Suc i \<le> j \<and> j < length (?h1 x)" using lenx by simp
        with IH have "h' p ! j = (if ?h1 x ! j < 50 then 0 else if ?h1 x ! j < 100 then 1 else 2)"
          by blast
        with x1[OF False] show ?thesis by simp
      qed
    next
      fix j assume j: "length (h x) \<le> j"
      with True have ne: "j \<noteq> i" by simp
      from j lenx IH have "h' p ! j = ?h1 p ! j" by simp
      with ne show "h' p ! j = h p ! j" by simp
    qed
  qed
qed

text \<open>The loop returns when the output array is at least as long as the input.\<close>

lemma expensive_loop_returns:
  "length (h x) \<le> length (h p) \<Longrightarrow> \<exists>h'. expensive_loop i x p h = Inr h'"
proof (induction i x p h rule: expensive_loop.induct)
  case (1 i x p h)
  show ?case
  proof (cases "i < length (h x)")
    case False
    then show ?thesis by (simp add: expensive_loop_done)
  next
    case True
    let ?v = "if h x ! i < 50 then 0 else if h x ! i < 100 then (1::int) else 2"
    let ?h1 = "h(p := (h p)[i := ?v])"
    from True "1.prems" have ip: "i < length (h p)" by simp
    have st: "(if h x ! i < 50 then setitem p i 0 h
               else if h x ! i < 100 then setitem p i 1 h else setitem p i 2 h) = Inr ?h1"
      using ip by (simp add: setitem_def)
    have "length (?h1 x) \<le> length (?h1 p)" using "1.prems" by simp
    from "1.IH"[OF True refl st this] obtain h' where "expensive_loop (Suc i) x p ?h1 = Inr h'" ..
    then show ?thesis using expensive_loop_store[OF True ip] by simp
  qed
qed

text \<open>It raises \<open>IndexError\<close> when the output array is shorter than the input.\<close>

lemma expensive_loop_raises:
  "length (h p) < length (h x) \<Longrightarrow> i \<le> length (h p) \<Longrightarrow>
   expensive_loop i x p h = Inl IndexError"
proof (induction i x p h rule: expensive_loop.induct)
  case (1 i x p h)
  from "1.prems" have True: "i < length (h x)" by simp
  show ?case
  proof (cases "i < length (h p)")
    case False
    then show ?thesis using True expensive_loop_out_of_range[of i h x p] by simp
  next
    case ip: True
    let ?v = "if h x ! i < 50 then 0 else if h x ! i < 100 then (1::int) else 2"
    let ?h1 = "h(p := (h p)[i := ?v])"
    have st: "(if h x ! i < 50 then setitem p i 0 h
               else if h x ! i < 100 then setitem p i 1 h else setitem p i 2 h) = Inr ?h1"
      using ip by (simp add: setitem_def)
    have "x \<noteq> p" using "1.prems" by auto
    then have a: "length (?h1 p) < length (?h1 x)" using "1.prems" by simp
    have b: "Suc i \<le> length (?h1 p)" using ip by simp
    have "expensive_loop (Suc i) x p ?h1 = Inl IndexError"
      by (rule "1.IH"[OF True refl st a b])
    with expensive_loop_store[OF True ip] show ?thesis by (rule trans)
  qed
qed

lemma expensive_returns_iff:
  "(\<exists>h'. expensive x p h = Inr h') \<longleftrightarrow> length (h x) \<le> length (h p)"
proof
  assume "\<exists>h'. expensive x p h = Inr h'"
  then show "length (h x) \<le> length (h p)"
    using expensive_loop_raises[of h p x 0] by (auto simp: expensive_def not_less[symmetric])
next
  assume "length (h x) \<le> length (h p)"
  then show "\<exists>h'. expensive x p h = Inr h'"
    unfolding expensive_def by (rule expensive_loop_returns)
qed

lemma expensive_entry:
  assumes "expensive x p h = Inr h'" and "i < length (h x)"
  shows "i < length (h' p)"
    and "h' p ! i = (if h x ! i < 50 then 0 else if h x ! i < 100 then 1 else 2)"
proof -
  from assms(1) have "length (h x) \<le> length (h p)"
    using expensive_returns_iff by blast
  moreover from assms(1) have "length (h' p) = length (h p)"
    using expensive_loop_spec[of 0 x p h h'] by (simp add: expensive_def)
  ultimately show "i < length (h' p)" using assms(2) by simp
  from assms show "h' p ! i = (if h x ! i < 50 then 0 else if h x ! i < 100 then 1 else 2)"
    using expensive_loop_spec[of 0 x p h h'] by (simp add: expensive_def)
qed

lemma listing_arrays_run:
  "expensive 0 1 listing_arrays = Inr (listing_arrays(1 := [0, 1, 1, 2, 0, 9]))"
  by (simp add: expensive_def expensive_loop.simps setitem_def listing_arrays_def no_arrays_def)

lemma short_arrays_run: "expensive 0 1 short_arrays = Inl IndexError"
  by (simp add: expensive_def expensive_loop.simps setitem_def short_arrays_def no_arrays_def)

text \<open>
  C2, as stated, puts no condition on the length of \<open>price_index\<close>. On the prices
  \<open>[10, 200, 60]\<close> and the output array \<open>[7]\<close> the function does not return: the
  assignment \<open>price_index[1] = 2\<close> raises \<open>IndexError\<close>, and \<open>price_index\<close> has no entry
  at index 1 or 2 for the claim to speak of.
\<close>

theorem expensive_short_output_raises:
  "(1::nat) < length (short_arrays 0) \<and> length (short_arrays 1) = 1 \<and>
   short_arrays 0 = [10, 200, 60] \<and>
   expensive 0 1 short_arrays = Inl IndexError"
  using short_arrays_run by (simp add: short_arrays_def)

text \<open>
  C2, amended. For every input array \<open>x\<close>, every output array \<open>price_index\<close> at least as
  long as \<open>x\<close>, and every index \<open>i\<close> below the length of \<open>x\<close>: \<open>expensive\<close> returns, and
  afterwards \<open>price_index[i]\<close> is 0 when \<open>x[i] < 50\<close>, 1 when \<open>50 \<le> x[i] < 100\<close> and 2
  when \<open>x[i] \<ge> 100\<close>, where \<open>x[i]\<close> is the price the function was given; so every written
  entry of \<open>price_index\<close> is 0, 1 or 2.
\<close>

theorem expensive_price_index:
  assumes "length (h x) \<le> length (h price_index)" and "i < length (h x)"
  shows "\<exists>h'. expensive x price_index h = Inr h' \<and>
           i < length (h' price_index) \<and>
           (h x ! i < 50 \<longrightarrow> h' price_index ! i = 0) \<and>
           (50 \<le> h x ! i \<and> h x ! i < 100 \<longrightarrow> h' price_index ! i = 1) \<and>
           (100 \<le> h x ! i \<longrightarrow> h' price_index ! i = 2) \<and>
           h' price_index ! i \<in> {0, 1, 2}"
proof -
  from assms(1) obtain h' where run: "expensive x price_index h = Inr h'"
    using expensive_returns_iff by blast
  from expensive_entry[OF run assms(2)] run show ?thesis by simp
qed

theorem expensive_price_index_witness:
  "length (listing_arrays 0) \<le> length (listing_arrays 1) \<and>
   (3::nat) < length (listing_arrays 0) \<and>
   listing_arrays 0 ! 3 = 100 \<and>
   (\<exists>h'. expensive 0 1 listing_arrays = Inr h' \<and> h' 1 ! 3 = 2)"
proof -
  have l: "length (listing_arrays 0) \<le> length (listing_arrays 1)"
    by (simp add: listing_arrays_def)
  have i: "(3::nat) < length (listing_arrays 0)"
    by (simp add: listing_arrays_def)
  have p: "listing_arrays 0 ! 3 = 100"
    by (simp add: listing_arrays_def)
  from expensive_price_index[OF l i] obtain h' where
    "expensive 0 1 listing_arrays = Inr h'" and "100 \<le> listing_arrays 0 ! 3 \<longrightarrow> h' 1 ! 3 = 2"
    by blast
  with p l i show ?thesis by auto
qed


lemma shared_array_run:
  "expensive 0 0 shared_array = Inr (shared_array(0 := [1, 0]))"
  by (simp add: expensive_def expensive_loop.simps setitem_def shared_array_def no_arrays_def)

lemma expensive_take:
  assumes "expensive x p h = Inr h'"
  shows "take (length (h x)) (h' p) =
         map (\<lambda>price. if price < 50 then 0 else if price < 100 then 1 else 2) (h x)"
proof (rule nth_equalityI)
  have "length (h x) \<le> length (h p)"
    using assms expensive_returns_iff by blast
  moreover have "length (h' p) = length (h p)"
    using assms expensive_loop_spec[of 0 x p h h'] by (simp add: expensive_def)
  ultimately have "length (h x) \<le> length (h' p)" by simp
  then show "length (take (length (h x)) (h' p)) =
        length (map (\<lambda>price. if price < 50 then 0 else if price < 100 then (1::int) else 2) (h x))"
    by simp
next
  fix i assume "i < length (take (length (h x)) (h' p))"
  then have i: "i < length (h x)" by simp
  with expensive_entry(2)[OF assms i]
  show "take (length (h x)) (h' p) ! i =
        map (\<lambda>price. if price < 50 then 0 else if price < 100 then 1 else 2) (h x) ! i"
    by simp
qed

lemma expensive_drop:
  assumes "expensive x p h = Inr h'"
  shows "drop (length (h x)) (h' p) = drop (length (h x)) (h p)"
proof (rule nth_equalityI)
  from assms have len: "length (h' p) = length (h p)"
    using expensive_loop_spec[of 0 x p h h'] by (simp add: expensive_def)
  then show "length (drop (length (h x)) (h' p)) = length (drop (length (h x)) (h p))"
    by simp
  fix i assume "i < length (drop (length (h x)) (h' p))"
  then have "length (h x) + i < length (h' p)" by simp
  moreover have "h' p ! (length (h x) + i) = h p ! (length (h x) + i)"
    using assms expensive_loop_spec[of 0 x p h h'] by (simp add: expensive_def)
  ultimately show "drop (length (h x)) (h' p) ! i = drop (length (h x)) (h p) ! i"
    using len by simp
qed

lemma expensive_others:
  assumes "expensive x p h = Inr h'" and "a \<noteq> p"
  shows "h' a = h a"
  using assms expensive_loop_spec[of 0 x p h h'] by (simp add: expensive_def)





text \<open>
  C9, as stated, asks only that \<open>price_index\<close> be at least as long as \<open>x\<close>. That
  holds when one array is passed for both parameters, and then the function overwrites
  its input: called on the array \<open>[60, 10]\<close> it leaves \<open>[1, 0]\<close> there.
\<close>

theorem expensive_shared_array_overwrites_x:
  "length (shared_array 0) \<le> length (shared_array 0) \<and>
   expensive 0 0 shared_array = Inr (shared_array(0 := [1, 0])) \<and>
   shared_array 0 = [60, 10] \<and>
   (shared_array(0 := [1, 0])) 0 = [1, 0]"
  using shared_array_run by (simp add: shared_array_def)

text \<open>
  C9, amended. When \<open>x\<close> and \<open>price_index\<close> are distinct arrays and \<open>price_index\<close> is
  at least as long as \<open>x\<close>, the function returns without an \<open>IndexError\<close> (every item
  assignment is in range; the reads are those of the loop over \<open>x\<close>), it leaves \<open>x\<close>
  and every array other than \<open>price_index\<close> as they were, it keeps the length of
  \<open>price_index\<close> and its entries from index \<open>len(x)\<close> on, its first \<open>len(x)\<close> entries
  are the classes of the prices, and those entries are the same whatever \<open>price_index\<close>
  held before the call: no initial value of \<open>price_index\<close> is read.
\<close>

theorem expensive_frame:
  assumes "x \<noteq> price_index" and "length (h x) \<le> length (h price_index)"
  shows "\<exists>h'. expensive x price_index h = Inr h' \<and>
           h' x = h x \<and>
           (\<forall>a. a \<noteq> price_index \<longrightarrow> h' a = h a) \<and>
           length (h' price_index) = length (h price_index) \<and>
           take (length (h x)) (h' price_index) =
             map (\<lambda>price. if price < 50 then 0 else if price < 100 then 1 else 2) (h x) \<and>
           drop (length (h x)) (h' price_index) = drop (length (h x)) (h price_index) \<and>
           (\<forall>q. length (h x) \<le> length q \<longrightarrow>
              (\<exists>g'. expensive x price_index (h(price_index := q)) = Inr g' \<and>
                    take (length (h x)) (g' price_index) = take (length (h x)) (h' price_index)))"
proof -
  from assms(2) obtain h' where run: "expensive x price_index h = Inr h'"
    using expensive_returns_iff by blast
  have len: "length (h' price_index) = length (h price_index)"
    using run expensive_loop_spec[of 0 x price_index h h'] by (simp add: expensive_def)
  have other: "\<forall>a. a \<noteq> price_index \<longrightarrow> h' a = h a"
    using run expensive_others by blast
  have indep: "\<exists>g'. expensive x price_index (h(price_index := q)) = Inr g' \<and>
                 take (length (h x)) (g' price_index) = take (length (h x)) (h' price_index)"
    if q: "length (h x) \<le> length q" for q
  proof -
    let ?g = "h(price_index := q)"
    have gx: "?g x = h x" using assms(1) by simp
    have "length (?g x) \<le> length (?g price_index)" using q gx by simp
    then obtain g' where g: "expensive x price_index ?g = Inr g'"
      using expensive_returns_iff by blast
    have "take (length (h x)) (g' price_index) = take (length (h x)) (h' price_index)"
      using expensive_take[OF g] expensive_take[OF run] gx by simp
    with g show ?thesis by blast
  qed
  from run other assms(1) len expensive_take[OF run] expensive_drop[OF run] indep
  show ?thesis by blast
qed

theorem expensive_frame_witness:
  "(0::nat) \<noteq> 1 \<and> length (listing_arrays 0) \<le> length (listing_arrays 1) \<and>
   (\<exists>h'. expensive 0 1 listing_arrays = Inr h' \<and>
      h' 0 = [10, 50, 99, 100, 7] \<and> h' 1 = [0, 1, 1, 2, 0, 9])"
proof -
  have a: "(0::nat) \<noteq> 1" by simp
  have b: "length (listing_arrays 0) \<le> length (listing_arrays 1)"
    by (simp add: listing_arrays_def)
  from expensive_frame[OF a b] obtain h' where
    run: "expensive 0 1 listing_arrays = Inr h'" and x: "h' 0 = listing_arrays 0"
    and t: "take (length (listing_arrays 0)) (h' 1) =
             map (\<lambda>price. if price < 50 then 0 else if price < 100 then 1 else 2) (listing_arrays 0)"
    and d: "drop (length (listing_arrays 0)) (h' 1) = drop (length (listing_arrays 0)) (listing_arrays 1)"
    by blast
  have "h' 1 = take (length (listing_arrays 0)) (h' 1) @ drop (length (listing_arrays 0)) (h' 1)"
    by simp
  also have "\<dots> = [0, 1, 1, 2, 0, 9]"
    unfolding t d by (simp add: listing_arrays_def)
  finally have p: "h' 1 = [0, 1, 1, 2, 0, 9]" .
  from x have "h' 0 = [10, 50, 99, 100, 7]" by (simp add: listing_arrays_def)
  with run p a b show ?thesis by blast
qed


section \<open>Properties of the notebook\<close>

subsection \<open>Every run follows the listing\<close>

text \<open>
  Rules that build the fact \<open>issues\<close> for a cell from its code, one rule per combinator,
  and \<open>straight_line\<close> for the notebook from its cells.
\<close>

lemma outcome_ok_then:
  assumes "outcome_ok L1 (Inr a) new1" and "outcome_ok L2 r new2"
  shows "outcome_ok (L1 @ L2) r (new1 @ new2)"
proof (cases r)
  case (Inr b)
  with assms show ?thesis by (auto simp: outcome_ok_def)
next
  case (Inl e)
  with assms have n2: "new2 \<noteq> []" by (simp add: outcome_ok_def)
  then have bl: "butlast (new1 @ new2) = new1 @ butlast new2"
    by (simp add: butlast_append)
  from assms Inl n2 show ?thesis
    unfolding outcome_ok_def bl by auto
qed

lemma outcome_ok_raise:
  assumes "outcome_ok L1 (Inl e) new1"
  shows "outcome_ok (L1 @ L2) (Inl e) new1"
  using assms by (auto simp: outcome_ok_def)

lemma issues_and_then:
  assumes m: "issues n m sk1" and f: "\<And>a. issues n (f a) sk2"
  shows "issues n (and_then m f) (sk1 @ sk2)"
  unfolding issues_def
proof (intro allI impI)
  fix s :: "('a, 'b, 'c) session"
  assume n: "execution_count s = n"
  obtain r s1 where ms: "m s = (r, s1)" by (cases "m s")
  from m[unfolded issues_def, rule_format, OF n] ms
  obtain new1 where e1: "events s1 = events s @ new1"
    and c1: "execution_count s1 = n"
    and o1: "outcome_ok (map (Pair n) sk1) r new1"
    by auto
  show "\<exists>new. events (snd (and_then m f s)) = events s @ new \<and>
          execution_count (snd (and_then m f s)) = n \<and>
          outcome_ok (map (Pair n) (sk1 @ sk2)) (fst (and_then m f s)) new"
  proof (cases r)
    case (Inl e)
    then have "and_then m f s = (Inl e, s1)" using ms by (simp add: and_then_def)
    with e1 c1 o1 Inl outcome_ok_raise[of "map (Pair n) sk1" e new1 "map (Pair n) sk2"]
    show ?thesis by auto
  next
    case (Inr a)
    then have at: "and_then m f s = f a s1" using ms by (simp add: and_then_def)
    from f[unfolded issues_def, rule_format, OF c1]
    obtain new2 where e2: "events (snd (f a s1)) = events s1 @ new2"
      and c2: "execution_count (snd (f a s1)) = n"
      and o2: "outcome_ok (map (Pair n) sk2) (fst (f a s1)) new2"
      by auto
    from o1 Inr o2 have "outcome_ok (map (Pair n) sk1 @ map (Pair n) sk2) (fst (f a s1)) (new1 @ new2)"
      by (auto intro: outcome_ok_then)
    with e1 e2 c2 at show ?thesis by auto
  qed
qed

lemma issues_ext:
  "issues n (ext lib op) [map_ext_op (\<lambda>_. ()) op]"
  unfolding issues_def
proof (intro allI impI)
  fix s :: "('a, 'b, 'c) session"
  assume n: "execution_count s = n"
  obtain r w' where l: "lib op (world s) = (r, w')" by (cases "lib op (world s)")
  let ?new = "[(n, op, r)]"
  have "events (snd (ext lib op s)) = events s @ ?new"
    and "execution_count (snd (ext lib op s)) = n"
    and "fst (ext lib op s) = r"
    using l n by (simp_all add: ext_def)
  moreover have "outcome_ok (map (Pair n) [map_ext_op (\<lambda>_. ()) op]) r ?new"
    by (cases r) (simp_all add: outcome_ok_def skeleton_def raised_def)
  ultimately show "\<exists>new. events (snd (ext lib op s)) = events s @ new \<and>
          execution_count (snd (ext lib op s)) = n \<and>
          outcome_ok (map (Pair n) [map_ext_op (\<lambda>_. ()) op]) (fst (ext lib op s)) new"
    by metis
qed

lemma issues_bang:
  "issues n (bang sh cmd) [Shell cmd]"
  unfolding issues_def
proof (intro allI impI)
  fix s :: "('a, 'b, 'c) session"
  assume n: "execution_count s = n"
  obtain status out w' where l: "sh cmd (world s) = ((status, out), w')"
    by (metis surj_pair)
  let ?new = "[(n, Shell cmd, Inr out)]"
  have "events (snd (bang sh cmd s)) = events s @ ?new"
    and "execution_count (snd (bang sh cmd s)) = n"
    and "fst (bang sh cmd s) = Inr out"
    using l n by (simp_all add: bang_def)
  moreover have "outcome_ok (map (Pair n) [Shell cmd]) (Inr out) ?new"
    by (simp add: outcome_ok_def skeleton_def raised_def)
  ultimately show "\<exists>new. events (snd (bang sh cmd s)) = events s @ new \<and>
          execution_count (snd (bang sh cmd s)) = n \<and>
          outcome_ok (map (Pair n) [Shell cmd]) (fst (bang sh cmd s)) new"
    by metis
qed

lemma issues_ext_then:
  assumes "sk0 = map_ext_op (\<lambda>_. ()) op" and "\<And>v. issues n (f v) sk"
  shows "issues n (and_then (ext lib op) f) (sk0 # sk)"
proof -
  have "issues n (and_then (ext lib op) f) ([map_ext_op (\<lambda>_. ()) op] @ sk)"
    by (rule issues_and_then[OF issues_ext]) (rule assms(2))
  then show ?thesis by (simp add: assms(1))
qed

lemma issues_bang_then:
  assumes "\<And>v. issues n (f v) sk"
  shows "issues n (and_then (bang sh cmd) f) (Shell cmd # sk)"
proof -
  have "issues n (and_then (bang sh cmd) f) ([Shell cmd] @ sk)"
    by (rule issues_and_then[OF issues_bang]) (rule assms)
  then show ?thesis by simp
qed

lemma issues_display: "issues n (display v) []"
  by (simp add: issues_def display_def outcome_ok_def)

lemma issues_bound: "issues n (bound a) []"
  by (simp add: issues_def bound_def outcome_ok_def)

lemma issues_display_then:
  assumes "issues n (f ()) sk"
  shows "issues n (and_then (display v) f) sk"
proof -
  have "issues n (and_then (display v) f) ([] @ sk)"
    by (rule issues_and_then[OF issues_display]) (simp add: assms)
  then show ?thesis by simp
qed

lemma straight_line_in_cell:
  assumes "issues n m sk" and "L = map (Pair n) sk"
  shows "straight_line (in_cell n m) L"
  unfolding straight_line_def
proof
  fix s :: "('a, 'b, 'c) session"
  let ?s = "s\<lparr>execution_count := n\<rparr>"
  have "execution_count ?s = n" by simp
  from assms(1)[unfolded issues_def, rule_format, OF this]
  have "\<exists>new. events (snd (m ?s)) = events ?s @ new \<and>
      outcome_ok (map (Pair n) sk) (fst (m ?s)) new"
    by auto
  then show "\<exists>new. events (snd (in_cell n m s)) = events s @ new \<and>
      outcome_ok L (fst (in_cell n m s)) new"
    using assms(2) by (simp add: in_cell_def)
qed

lemma straight_line_and_then:
  assumes m: "straight_line m L1" and f: "\<And>a. straight_line (f a) L2"
  shows "straight_line (and_then m f) (L1 @ L2)"
  unfolding straight_line_def
proof
  fix s :: "('a, 'b, 'c) session"
  obtain r s1 where ms: "m s = (r, s1)" by (cases "m s")
  from m[unfolded straight_line_def, rule_format, of s] ms
  obtain new1 where e1: "events s1 = events s @ new1"
    and o1: "outcome_ok L1 r new1"
    by auto
  show "\<exists>new. events (snd (and_then m f s)) = events s @ new \<and>
          outcome_ok (L1 @ L2) (fst (and_then m f s)) new"
  proof (cases r)
    case (Inl e)
    then have "and_then m f s = (Inl e, s1)" using ms by (simp add: and_then_def)
    with e1 o1 Inl outcome_ok_raise[of L1 e new1 L2]
    show ?thesis by auto
  next
    case (Inr a)
    then have at: "and_then m f s = f a s1" using ms by (simp add: and_then_def)
    from f[unfolded straight_line_def, rule_format, of a s1]
    obtain new2 where e2: "events (snd (f a s1)) = events s1 @ new2"
      and o2: "outcome_ok L2 (fst (f a s1)) new2"
      by auto
    from o1 Inr o2 have "outcome_ok (L1 @ L2) (fst (f a s1)) (new1 @ new2)"
      by (auto intro: outcome_ok_then)
    with e1 e2 at show ?thesis by auto
  qed
qed

lemma straight_line_pair:
  assumes "straight_line m L1" and "\<And>a b. straight_line (f a b) L2"
  shows "straight_line (and_then m (\<lambda>(a, b). f a b)) (L1 @ L2)"
  by (rule straight_line_and_then[OF assms(1)]) (simp add: assms(2) split_beta)

lemma cell_1_issues: "straight_line (cell_1 sh) (map (Pair 1) cell_1_ops)"
  unfolding cell_1_def cell_1_ops_def
  apply (rule straight_line_in_cell[OF _ refl])
  apply (rule issues_bang_then)
  apply (rule issues_display)
  done

lemma cell_2_issues: "straight_line (cell_2 lib) (map (Pair 2) cell_2_ops)"
  unfolding cell_2_def cell_2_ops_def
  apply (rule straight_line_in_cell[OF _ refl])
  apply (rule issues_ext_then, simp)+
  apply (rule issues_bound)
  done

lemma cell_3_issues: "straight_line (cell_3 lib) (map (Pair 3) cell_3_ops)"
  unfolding cell_3_def cell_3_ops_def
  apply (rule straight_line_in_cell[OF _ refl])
  apply (rule issues_ext_then, simp)+
  apply (rule issues_display_then)
  apply (rule issues_bound)
  done

lemma cell_4_issues: "straight_line (cell_4 lib df) (map (Pair 4) cell_4_ops)"
  unfolding cell_4_def cell_4_ops_def
  apply (rule straight_line_in_cell[OF _ refl])
  apply (rule issues_ext_then, simp)+
  apply (rule issues_display)
  done

lemma cell_5_issues: "straight_line (cell_5 lib df) (map (Pair 5) cell_5_ops)"
  unfolding cell_5_def cell_5_ops_def
  apply (rule straight_line_in_cell[OF _ refl])
  apply (rule issues_ext_then, simp)+
  apply (rule issues_display_then)
  apply (rule issues_bound)
  done

lemma cell_6_issues: "straight_line (cell_6 lib df) (map (Pair 6) cell_6_ops)"
  unfolding cell_6_def cell_6_ops_def
  apply (rule straight_line_in_cell[OF _ refl])
  apply (rule issues_ext_then, simp)+
  apply (rule issues_bound)
  done

lemma cell_7_issues: "straight_line (cell_7 lib dask_cudf np fit) (map (Pair 7) cell_7_ops)"
  unfolding cell_7_def cell_7_ops_def
  apply (rule straight_line_in_cell[OF _ refl])
  apply (rule issues_ext_then, simp)+
  apply (rule issues_display)
  done

lemma notebook_issues: "straight_line (notebook sh lib) notebook_ops"
  unfolding notebook_def notebook_ops_def
  apply (rule straight_line_and_then[OF cell_1_issues])
  apply (rule straight_line_pair[OF cell_2_issues])
  apply (rule straight_line_pair[OF cell_3_issues])
  apply (rule straight_line_and_then[OF cell_4_issues])
  apply (rule straight_line_and_then[OF cell_5_issues])
  apply (rule straight_line_pair[OF cell_6_issues])
  apply (rule cell_7_issues)
  done

text \<open>
  A straight line stops at the first operation that raises.
\<close>

lemma outcome_ok_stops:
  assumes ok: "outcome_ok L r new"
  shows "(\<forall>i e. i < length new \<and> snd (snd (new ! i)) = Inl e \<longrightarrow>
            Suc i = length new \<and> r = Inl e) \<and>
         (\<forall>e. r = Inl e \<longrightarrow> new \<noteq> [] \<and> snd (snd (last new)) = Inl e)"
proof -
  have l: "new \<noteq> [] \<and> snd (snd (last new)) = Inl e" if "r = Inl e" for e
    using ok that by (simp add: outcome_ok_def)
  have f: "Suc i = length new \<and> r = Inl e"
    if ie: "i < length new \<and> snd (snd (new ! i)) = Inl e" for i e
  proof (cases r)
    case (Inr u)
    from ie have ri: "raised (new ! i)" by (simp add: raised_def)
    from Inr ok have "\<forall>ev \<in> set new. \<not> raised ev" by (simp add: outcome_ok_def)
    with ie ri show ?thesis by auto
  next
    case (Inl e')
    from ie have ri: "raised (new ! i)" by (simp add: raised_def)
    from Inl ok have ne: "new \<noteq> []" and la: "snd (snd (last new)) = Inl e'"
      and b: "\<forall>ev \<in> set (butlast new). \<not> raised ev"
      by (simp_all add: outcome_ok_def)
    have "\<not> i < length (butlast new)"
    proof
      assume a: "i < length (butlast new)"
      then have "butlast new ! i \<in> set (butlast new)" by (rule nth_mem)
      moreover have "butlast new ! i = new ! i" using a by (simp add: nth_butlast)
      ultimately show False using b ri by simp
    qed
    with ie have i: "Suc i = length new" by (auto simp: length_butlast)
    with ne have "new ! i = last new"
      by (metis diff_Suc_1 last_conv_nth)
    with ie la Inl i show ?thesis by simp
  qed
  from l f show ?thesis by blast
qed

lemma straight_line_stops:
  assumes "straight_line m L"
  shows "stops_at_raise m"
  unfolding stops_at_raise_def
proof
  fix s :: "('a, 'b, 'c) session"
  from assms[unfolded straight_line_def, rule_format, of s]
  obtain new where e: "events (snd (m s)) = events s @ new" and o: "outcome_ok L (fst (m s)) new"
    by auto
  from e outcome_ok_stops[OF o]
  show "\<exists>new. events (snd (m s)) = events s @ new \<and>
        (\<forall>i e. i < length new \<and> snd (snd (new ! i)) = Inl e \<longrightarrow>
           Suc i = length new \<and> fst (m s) = Inl e) \<and>
        (\<forall>e. fst (m s) = Inl e \<longrightarrow> new \<noteq> [] \<and> snd (snd (last new)) = Inl e)"
    by blast
qed

subsection \<open>Three runs\<close>

text \<open>
  The run against \<open>numbering\<close>, in full: 53 operations, all returning, and five values
  shown. The run against \<open>raising_at 18\<close> stops at operation 18, the call of \<open>apply_rows\<close>.
  The run in which \<open>nvidia-smi\<close> fails goes on to the end.
\<close>

lemma and_then_apply:
  "and_then m f s = (case m s of (Inl e, s') \<Rightarrow> (Inl e, s') | (Inr a, s') \<Rightarrow> f a s')"
  by (simp add: and_then_def)

lemma bound_apply: "bound a s = (Inr a, s)"
  by (simp add: bound_def)

lemma ext_apply:
  "ext lib op s = (case lib op (world s) of (r, w') \<Rightarrow>
     (r, s\<lparr>world := w', events := events s @ [(execution_count s, op, r)]\<rparr>))"
  by (simp add: ext_def)

lemma bang_apply:
  "bang sh cmd s = (case sh cmd (world s) of ((status, out), w') \<Rightarrow>
     (Inr out, s\<lparr>world := w', exit_code := Some status,
                events := events s @ [(execution_count s, Shell cmd, Inr out)]\<rparr>))"
  by (simp add: bang_def)

lemma display_apply:
  "display v s = (Inr (), s\<lparr>displayed := displayed s @ [(execution_count s, v)]\<rparr>)"
  by (simp add: display_def)

lemma in_cell_apply: "in_cell n m s = m (s\<lparr>execution_count := n\<rparr>)"
  by (simp add: in_cell_def)

lemmas run_simps = notebook_def cell_1_def cell_2_def cell_3_def cell_4_def cell_5_def cell_6_def
  cell_7_def and_then_apply bound_apply ext_apply bang_apply display_apply in_cell_apply start_def

lemma numbering_run:
  "notebook numbering_shell numbering (start 0) =
    (Inr (),
     \<lparr>world = 53, execution_count = 7, exit_code = Some 0,
      events =
       [(1, Shell ''nvidia-smi'', Inr 0),
        (2, Import_from ''dask_cuda'' ''LocalCUDACluster'', Inr 1),
        (2, Import_from ''dask.distributed'' ''Client'', Inr 2),
        (2, Call (Obj 1) [] [], Inr 3),
        (2, Call (Obj 2) [Obj 3] [], Inr 4),
        (3, Import ''dask_cudf'', Inr 5),
        (3, Getattr (Obj 5) ''read_csv'', Inr 6),
        (3, Call (Obj 6) [Str ''listings*.csv''] [], Inr 7),
        (3, Getattr (Obj 7) ''head'', Inr 8),
        (3, Call (Obj 8) [] [], Inr 9),
        (4, Getattr (Obj 7) ''groupby'', Inr 10),
        (4, Call (Obj 10) [PyList [Str ''neighbourhood'', Str ''room_type'']] [], Inr 11),
        (4, Getattr (Obj 11) ''price'', Inr 12),
        (4, Getattr (Obj 12) ''mean'', Inr 13),
        (4, Call (Obj 13) [] [], Inr 14),
        (4, Getattr (Obj 14) ''compute'', Inr 15),
        (4, Call (Obj 15) [] [], Inr 16),
        (5, Getattr (Obj 7) ''apply_rows'', Inr 17),
        (5, Call (Obj 17) [Function expensive]
            [(''incols'', PyDict [(''price'', Str ''x'')]),
                (''outcols'', PyDict [(''price_index'', Builtin ''int'')])], Inr 18),
        (5, Getitem (Obj 18) (PyList [Str ''price'', Str ''price_index'']), Inr 19),
        (5, Getattr (Obj 19) ''head'', Inr 20),
        (5, Call (Obj 20) [] [], Inr 21),
        (6, Import_from ''cuml.dask.linear_model'' ''LinearRegression'', Inr 22),
        (6, Import ''numpy'', Inr 23),
        (6, Getitem (Obj 18) (PyList [Str ''reviews_per_month'', Str ''minimum_nights'']), Inr 24),
        (6, Getattr (Obj 24) ''astype'', Inr 25),
        (6, Getattr (Obj 23) ''float32'', Inr 26),
        (6, Call (Obj 25) [Obj 26] [], Inr 27),
        (6, Getattr (Obj 27) ''dropna'', Inr 28),
        (6, Call (Obj 28) [] [], Inr 29),
        (6, Getitem (Obj 18) (PyList [Str ''price'']), Inr 30),
        (6, Getattr (Obj 30) ''astype'', Inr 31),
        (6, Getattr (Obj 23) ''float32'', Inr 32),
        (6, Call (Obj 31) [Obj 32] [], Inr 33),
        (6, Getattr (Obj 33) ''dropna'', Inr 34),
        (6, Call (Obj 34) [] [], Inr 35),
        (6, Call (Obj 22) [] [], Inr 36),
        (6, Getattr (Obj 36) ''fit'', Inr 37),
        (6, Call (Obj 37) [Obj 29, Obj 35] [], Inr 38),
        (7, Getattr (Obj 5) ''read_csv'', Inr 39),
        (7, Call (Obj 39) [Str ''test*.csv''] [], Inr 40),
        (7, Getitem (Obj 40) (PyList [Str ''reviews_per_month'', Str ''minimum_nights'']), Inr 41),
        (7, Getattr (Obj 41) ''astype'', Inr 42),
        (7, Getattr (Obj 23) ''float32'', Inr 43),
        (7, Call (Obj 42) [Obj 43] [], Inr 44),
        (7, Getattr (Obj 44) ''dropna'', Inr 45),
        (7, Call (Obj 45) [] [], Inr 46),
        (7, Getattr (Obj 38) ''predict'', Inr 47),
        (7, Call (Obj 47) [Obj 46] [], Inr 48),
        (7, Getattr (Obj 48) ''compute'', Inr 49),
        (7, Call (Obj 49) [] [], Inr 50),
        (7, Getattr (Obj 50) ''head'', Inr 51),
        (7, Call (Obj 51) [] [], Inr 52)],
      displayed = [(1, Obj 0), (3, Obj 9), (4, Obj 16), (5, Obj 21), (7, Obj 52)]\<rparr>)"
  by (simp add: run_simps numbering_def numbering_shell_def)

lemma raising_run:
  "notebook numbering_shell (raising_at 18) (start 0) =
    (Inl 18,
     \<lparr>world = 19, execution_count = 5, exit_code = Some 0,
      events =
       [(1, Shell ''nvidia-smi'', Inr 0),
        (2, Import_from ''dask_cuda'' ''LocalCUDACluster'', Inr 1),
        (2, Import_from ''dask.distributed'' ''Client'', Inr 2),
        (2, Call (Obj 1) [] [], Inr 3),
        (2, Call (Obj 2) [Obj 3] [], Inr 4),
        (3, Import ''dask_cudf'', Inr 5),
        (3, Getattr (Obj 5) ''read_csv'', Inr 6),
        (3, Call (Obj 6) [Str ''listings*.csv''] [], Inr 7),
        (3, Getattr (Obj 7) ''head'', Inr 8),
        (3, Call (Obj 8) [] [], Inr 9),
        (4, Getattr (Obj 7) ''groupby'', Inr 10),
        (4, Call (Obj 10) [PyList [Str ''neighbourhood'', Str ''room_type'']] [], Inr 11),
        (4, Getattr (Obj 11) ''price'', Inr 12),
        (4, Getattr (Obj 12) ''mean'', Inr 13),
        (4, Call (Obj 13) [] [], Inr 14),
        (4, Getattr (Obj 14) ''compute'', Inr 15),
        (4, Call (Obj 15) [] [], Inr 16),
        (5, Getattr (Obj 7) ''apply_rows'', Inr 17),
        (5, Call (Obj 17) [Function expensive]
            [(''incols'', PyDict [(''price'', Str ''x'')]),
                (''outcols'', PyDict [(''price_index'', Builtin ''int'')])], Inl 18)],
      displayed = [(1, Obj 0), (3, Obj 9), (4, Obj 16)]\<rparr>)"
  by (simp add: run_simps raising_at_def numbering_shell_def)

lemma failing_shell_run:
  "notebook failing_shell numbering (start 0) =
    (Inr (),
     \<lparr>world = 53, execution_count = 7, exit_code = Some 127,
      events =
       [(1, Shell ''nvidia-smi'', Inr 0),
        (2, Import_from ''dask_cuda'' ''LocalCUDACluster'', Inr 1),
        (2, Import_from ''dask.distributed'' ''Client'', Inr 2),
        (2, Call (Obj 1) [] [], Inr 3),
        (2, Call (Obj 2) [Obj 3] [], Inr 4),
        (3, Import ''dask_cudf'', Inr 5),
        (3, Getattr (Obj 5) ''read_csv'', Inr 6),
        (3, Call (Obj 6) [Str ''listings*.csv''] [], Inr 7),
        (3, Getattr (Obj 7) ''head'', Inr 8),
        (3, Call (Obj 8) [] [], Inr 9),
        (4, Getattr (Obj 7) ''groupby'', Inr 10),
        (4, Call (Obj 10) [PyList [Str ''neighbourhood'', Str ''room_type'']] [], Inr 11),
        (4, Getattr (Obj 11) ''price'', Inr 12),
        (4, Getattr (Obj 12) ''mean'', Inr 13),
        (4, Call (Obj 13) [] [], Inr 14),
        (4, Getattr (Obj 14) ''compute'', Inr 15),
        (4, Call (Obj 15) [] [], Inr 16),
        (5, Getattr (Obj 7) ''apply_rows'', Inr 17),
        (5, Call (Obj 17) [Function expensive]
            [(''incols'', PyDict [(''price'', Str ''x'')]),
                (''outcols'', PyDict [(''price_index'', Builtin ''int'')])], Inr 18),
        (5, Getitem (Obj 18) (PyList [Str ''price'', Str ''price_index'']), Inr 19),
        (5, Getattr (Obj 19) ''head'', Inr 20),
        (5, Call (Obj 20) [] [], Inr 21),
        (6, Import_from ''cuml.dask.linear_model'' ''LinearRegression'', Inr 22),
        (6, Import ''numpy'', Inr 23),
        (6, Getitem (Obj 18) (PyList [Str ''reviews_per_month'', Str ''minimum_nights'']), Inr 24),
        (6, Getattr (Obj 24) ''astype'', Inr 25),
        (6, Getattr (Obj 23) ''float32'', Inr 26),
        (6, Call (Obj 25) [Obj 26] [], Inr 27),
        (6, Getattr (Obj 27) ''dropna'', Inr 28),
        (6, Call (Obj 28) [] [], Inr 29),
        (6, Getitem (Obj 18) (PyList [Str ''price'']), Inr 30),
        (6, Getattr (Obj 30) ''astype'', Inr 31),
        (6, Getattr (Obj 23) ''float32'', Inr 32),
        (6, Call (Obj 31) [Obj 32] [], Inr 33),
        (6, Getattr (Obj 33) ''dropna'', Inr 34),
        (6, Call (Obj 34) [] [], Inr 35),
        (6, Call (Obj 22) [] [], Inr 36),
        (6, Getattr (Obj 36) ''fit'', Inr 37),
        (6, Call (Obj 37) [Obj 29, Obj 35] [], Inr 38),
        (7, Getattr (Obj 5) ''read_csv'', Inr 39),
        (7, Call (Obj 39) [Str ''test*.csv''] [], Inr 40),
        (7, Getitem (Obj 40) (PyList [Str ''reviews_per_month'', Str ''minimum_nights'']), Inr 41),
        (7, Getattr (Obj 41) ''astype'', Inr 42),
        (7, Getattr (Obj 23) ''float32'', Inr 43),
        (7, Call (Obj 42) [Obj 43] [], Inr 44),
        (7, Getattr (Obj 44) ''dropna'', Inr 45),
        (7, Call (Obj 45) [] [], Inr 46),
        (7, Getattr (Obj 38) ''predict'', Inr 47),
        (7, Call (Obj 47) [Obj 46] [], Inr 48),
        (7, Getattr (Obj 48) ''compute'', Inr 49),
        (7, Call (Obj 49) [] [], Inr 50),
        (7, Getattr (Obj 50) ''head'', Inr 51),
        (7, Call (Obj 51) [] [], Inr 52)],
      displayed = [(1, Obj 0), (3, Obj 9), (4, Obj 16), (5, Obj 21), (7, Obj 52)]\<rparr>)"
  by (simp add: run_simps numbering_def failing_shell_def)

subsection \<open>Runs that complete\<close>

text \<open>
  What a piece of code that returns has done, one rule per combinator; then each cell,
  and the whole notebook: a run that completes, against any shell and any library, has
  issued the operations of \<open>listing\<close> and shown five values.
\<close>

lemma ext_then_returns:
  assumes "and_then (ext lib op) f s = (Inr b, s')"
  obtains ob s1 where "events s1 = events s @ [(execution_count s, op, Inr ob)]"
    and "execution_count s1 = execution_count s" and "displayed s1 = displayed s"
    and "f ob s1 = (Inr b, s')"
proof -
  obtain r w' where l: "lib op (world s) = (r, w')" by (cases "lib op (world s)")
  show thesis
  proof (cases r)
    case (Inl e)
    with assms l show thesis by (simp add: and_then_def ext_def)
  next
    case (Inr ob)
    let ?s1 = "s\<lparr>world := w', events := events s @ [(execution_count s, op, Inr ob)]\<rparr>"
    from assms l Inr have "f ob ?s1 = (Inr b, s')" by (simp add: and_then_def ext_def)
    then show thesis by (rule that[rotated 3]) simp_all
  qed
qed

lemma bang_then_returns:
  assumes "and_then (bang sh cmd) f s = (Inr b, s')"
  obtains ob s1 where "events s1 = events s @ [(execution_count s, Shell cmd, Inr ob)]"
    and "execution_count s1 = execution_count s" and "displayed s1 = displayed s"
    and "f ob s1 = (Inr b, s')"
proof -
  obtain status ob w' where l: "sh cmd (world s) = ((status, ob), w')"
    by (metis surj_pair)
  let ?s1 = "s\<lparr>world := w', exit_code := Some status,
               events := events s @ [(execution_count s, Shell cmd, Inr ob)]\<rparr>"
  from assms l have "f ob ?s1 = (Inr b, s')" by (simp add: and_then_def bang_def)
  then show thesis by (rule that[rotated 3]) simp_all
qed

lemma display_then_returns:
  assumes "and_then (display v) f s = (Inr b, s')"
  obtains s1 where "events s1 = events s"
    and "execution_count s1 = execution_count s"
    and "displayed s1 = displayed s @ [(execution_count s, v)]"
    and "f () s1 = (Inr b, s')"
proof -
  let ?s1 = "s\<lparr>displayed := displayed s @ [(execution_count s, v)]\<rparr>"
  from assms have "f () ?s1 = (Inr b, s')" by (simp add: and_then_def display_def)
  then show thesis by (rule that[rotated 3]) simp_all
qed

lemma display_returns:
  assumes "display v s = (Inr b, s')"
  shows "events s' = events s \<and> displayed s' = displayed s @ [(execution_count s, v)]"
  using assms by (auto simp: display_def)

lemma bound_returns:
  assumes "bound a s = (Inr b, s')"
  shows "b = a \<and> events s' = events s \<and> displayed s' = displayed s"
  using assms by (auto simp: bound_def)

lemma in_cell_returns:
  assumes "in_cell n m s = (r, s')"
  obtains s0 where "events s0 = events s" and "displayed s0 = displayed s"
    and "execution_count s0 = n" and "m s0 = (r, s')"
proof -
  from assms have "m (s\<lparr>execution_count := n\<rparr>) = (r, s')" by (simp add: in_cell_def)
  then show thesis by (rule that[rotated 3]) simp_all
qed

lemma and_then_returns:
  "and_then m f s = (Inr b, s') \<longleftrightarrow> (\<exists>a s1. m s = (Inr a, s1) \<and> f a s1 = (Inr b, s'))"
  by (auto simp: and_then_def split: prod.splits sum.splits)

lemma cell_1_returns:
  assumes "cell_1 sh s = (Inr u, s')"
  shows "\<exists>o0. displayed s' = displayed s @ [(1, Obj o0)] \<and>
     events s' = events s @
       [(1, Shell ''nvidia-smi'', Inr o0)]"
  using assms unfolding cell_1_def
  apply (elim in_cell_returns bang_then_returns)
  apply (drule display_returns)
  apply (elim conjE)
  apply (intro exI conjI)
   apply simp
  apply (simp (no_asm_simp))
  done

lemma cell_2_returns:
  assumes "cell_2 lib s = (Inr u, s')"
  shows "\<exists>o1 o2 o3 o4. u = (o3, o4) \<and>
     displayed s' = displayed s \<and>
     events s' = events s @
       [(2, Import_from ''dask_cuda'' ''LocalCUDACluster'', Inr o1),
        (2, Import_from ''dask.distributed'' ''Client'', Inr o2),
        (2, Call (Obj o1) [] [], Inr o3),
        (2, Call (Obj o2) [Obj o3] [], Inr o4)]"
  using assms unfolding cell_2_def
  apply (elim in_cell_returns ext_then_returns)
  apply (drule bound_returns)
  apply (elim conjE)
  apply (intro exI conjI)
    apply assumption
   apply simp
  apply (simp (no_asm_simp))
  done

lemma cell_3_returns:
  assumes "cell_3 lib s = (Inr u, s')"
  shows "\<exists>o5 o6 o7 o8 o9. u = (o5, o7) \<and>
     displayed s' = displayed s @ [(3, Obj o9)] \<and>
     events s' = events s @
       [(3, Import ''dask_cudf'', Inr o5),
        (3, Getattr (Obj o5) ''read_csv'', Inr o6),
        (3, Call (Obj o6) [Str ''listings*.csv''] [], Inr o7),
        (3, Getattr (Obj o7) ''head'', Inr o8),
        (3, Call (Obj o8) [] [], Inr o9)]"
  using assms unfolding cell_3_def
  apply (elim in_cell_returns ext_then_returns display_then_returns)
  apply (drule bound_returns)
  apply (elim conjE)
  apply (intro exI conjI)
    apply assumption
   apply simp
  apply (simp (no_asm_simp))
  done

lemma cell_4_returns:
  assumes "cell_4 lib df s = (Inr u, s')"
  shows "\<exists>o10 o11 o12 o13 o14 o15 o16. displayed s' = displayed s @ [(4, Obj o16)] \<and>
     events s' = events s @
       [(4, Getattr (Obj df) ''groupby'', Inr o10),
        (4, Call (Obj o10) [PyList [Str ''neighbourhood'', Str ''room_type'']] [], Inr o11),
        (4, Getattr (Obj o11) ''price'', Inr o12),
        (4, Getattr (Obj o12) ''mean'', Inr o13),
        (4, Call (Obj o13) [] [], Inr o14),
        (4, Getattr (Obj o14) ''compute'', Inr o15),
        (4, Call (Obj o15) [] [], Inr o16)]"
  using assms unfolding cell_4_def
  apply (elim in_cell_returns ext_then_returns)
  apply (drule display_returns)
  apply (elim conjE)
  apply (intro exI conjI)
   apply simp
  apply (simp (no_asm_simp))
  done

lemma cell_5_returns:
  assumes "cell_5 lib df s = (Inr u, s')"
  shows "\<exists>o17 o18 o19 o20 o21. u = o18 \<and>
     displayed s' = displayed s @ [(5, Obj o21)] \<and>
     events s' = events s @
       [(5, Getattr (Obj df) ''apply_rows'', Inr o17),
        (5, Call (Obj o17) [Function expensive]
            [(''incols'', PyDict [(''price'', Str ''x'')]),
                (''outcols'', PyDict [(''price_index'', Builtin ''int'')])], Inr o18),
        (5, Getitem (Obj o18) (PyList [Str ''price'', Str ''price_index'']), Inr o19),
        (5, Getattr (Obj o19) ''head'', Inr o20),
        (5, Call (Obj o20) [] [], Inr o21)]"
  using assms unfolding cell_5_def
  apply (elim in_cell_returns ext_then_returns display_then_returns)
  apply (drule bound_returns)
  apply (elim conjE)
  apply (intro exI conjI)
    apply assumption
   apply simp
  apply (simp (no_asm_simp))
  done

lemma cell_6_returns:
  assumes "cell_6 lib df s = (Inr u, s')"
  shows "\<exists>o22 o23 o24 o25 o26 o27 o28 o29 o30 o31 o32 o33 o34 o35 o36 o37 o38. u = (o23, o38) \<and>
     displayed s' = displayed s \<and>
     events s' = events s @
       [(6, Import_from ''cuml.dask.linear_model'' ''LinearRegression'', Inr o22),
        (6, Import ''numpy'', Inr o23),
        (6, Getitem (Obj df) (PyList [Str ''reviews_per_month'', Str ''minimum_nights'']), Inr o24),
        (6, Getattr (Obj o24) ''astype'', Inr o25),
        (6, Getattr (Obj o23) ''float32'', Inr o26),
        (6, Call (Obj o25) [Obj o26] [], Inr o27),
        (6, Getattr (Obj o27) ''dropna'', Inr o28),
        (6, Call (Obj o28) [] [], Inr o29),
        (6, Getitem (Obj df) (PyList [Str ''price'']), Inr o30),
        (6, Getattr (Obj o30) ''astype'', Inr o31),
        (6, Getattr (Obj o23) ''float32'', Inr o32),
        (6, Call (Obj o31) [Obj o32] [], Inr o33),
        (6, Getattr (Obj o33) ''dropna'', Inr o34),
        (6, Call (Obj o34) [] [], Inr o35),
        (6, Call (Obj o22) [] [], Inr o36),
        (6, Getattr (Obj o36) ''fit'', Inr o37),
        (6, Call (Obj o37) [Obj o29, Obj o35] [], Inr o38)]"
  using assms unfolding cell_6_def
  apply (elim in_cell_returns ext_then_returns)
  apply (drule bound_returns)
  apply (elim conjE)
  apply (intro exI conjI)
    apply assumption
   apply simp
  apply (simp (no_asm_simp))
  done

lemma cell_7_returns:
  assumes "cell_7 lib dask_cudf np fit s = (Inr u, s')"
  shows "\<exists>o39 o40 o41 o42 o43 o44 o45 o46 o47 o48 o49 o50 o51 o52. displayed s' = displayed s @ [(7, Obj o52)] \<and>
     events s' = events s @
       [(7, Getattr (Obj dask_cudf) ''read_csv'', Inr o39),
        (7, Call (Obj o39) [Str ''test*.csv''] [], Inr o40),
        (7, Getitem (Obj o40) (PyList [Str ''reviews_per_month'', Str ''minimum_nights'']), Inr o41),
        (7, Getattr (Obj o41) ''astype'', Inr o42),
        (7, Getattr (Obj np) ''float32'', Inr o43),
        (7, Call (Obj o42) [Obj o43] [], Inr o44),
        (7, Getattr (Obj o44) ''dropna'', Inr o45),
        (7, Call (Obj o45) [] [], Inr o46),
        (7, Getattr (Obj fit) ''predict'', Inr o47),
        (7, Call (Obj o47) [Obj o46] [], Inr o48),
        (7, Getattr (Obj o48) ''compute'', Inr o49),
        (7, Call (Obj o49) [] [], Inr o50),
        (7, Getattr (Obj o50) ''head'', Inr o51),
        (7, Call (Obj o51) [] [], Inr o52)]"
  using assms unfolding cell_7_def
  apply (elim in_cell_returns ext_then_returns)
  apply (drule display_returns)
  apply (elim conjE)
  apply (intro exI conjI)
   apply simp
  apply (simp (no_asm_simp))
  done

lemma completed_run:
  assumes "notebook sh lib (start w) = (Inr u, s')"
  shows "events s' = listing (returned s') \<and>
         displayed s' =
           [(1, Obj (returned s' 0)), (3, Obj (returned s' 9)), (4, Obj (returned s' 16)),
               (5, Obj (returned s' 21)), (7, Obj (returned s' 52))]"
proof -
  from assms obtain u1 s1 u2 s2 u3 s3 u4 s4 u5 s5 u6 s6 where
    c1: "cell_1 sh (start w) = (Inr u1, s1)" and
    c2: "cell_2 lib s1 = (Inr u2, s2)" and
    c3: "cell_3 lib s2 = (Inr u3, s3)" and
    c4: "cell_4 lib (snd u3) s3 = (Inr u4, s4)" and
    c5: "cell_5 lib (snd u3) s4 = (Inr u5, s5)" and
    c6: "cell_6 lib u5 s5 = (Inr u6, s6)" and
    c7: "cell_7 lib (fst u3) (fst u6) (snd u6) s6 = (Inr u, s')"
    unfolding notebook_def and_then_returns split_beta by blast
  from cell_1_returns[OF c1] obtain o0 where
    d1: "displayed s1 = [(1, Obj o0)]" and
    e1: "events s1 = [(1, Shell ''nvidia-smi'', Inr o0)]"
    by (auto simp: start_def)
  from cell_2_returns[OF c2] obtain o1 o2 o3 o4 where
    d2: "displayed s2 = displayed s1" and
    e2: "events s2 = events s1 @
       [(2, Import_from ''dask_cuda'' ''LocalCUDACluster'', Inr o1),
        (2, Import_from ''dask.distributed'' ''Client'', Inr o2),
        (2, Call (Obj o1) [] [], Inr o3),
        (2, Call (Obj o2) [Obj o3] [], Inr o4)]"
    by blast
  from cell_3_returns[OF c3] obtain o5 o6 o7 o8 o9 where
    u3: "u3 = (o5, o7)" and
    d3: "displayed s3 = displayed s2 @ [(3, Obj o9)]" and
    e3: "events s3 = events s2 @
       [(3, Import ''dask_cudf'', Inr o5),
        (3, Getattr (Obj o5) ''read_csv'', Inr o6),
        (3, Call (Obj o6) [Str ''listings*.csv''] [], Inr o7),
        (3, Getattr (Obj o7) ''head'', Inr o8),
        (3, Call (Obj o8) [] [], Inr o9)]"
    by blast
  from cell_4_returns[OF c4] u3 obtain o10 o11 o12 o13 o14 o15 o16 where
    d4: "displayed s4 = displayed s3 @ [(4, Obj o16)]" and
    e4: "events s4 = events s3 @
       [(4, Getattr (Obj o7) ''groupby'', Inr o10),
        (4, Call (Obj o10) [PyList [Str ''neighbourhood'', Str ''room_type'']] [], Inr o11),
        (4, Getattr (Obj o11) ''price'', Inr o12),
        (4, Getattr (Obj o12) ''mean'', Inr o13),
        (4, Call (Obj o13) [] [], Inr o14),
        (4, Getattr (Obj o14) ''compute'', Inr o15),
        (4, Call (Obj o15) [] [], Inr o16)]"
    by auto
  from cell_5_returns[OF c5] u3 obtain o17 o18 o19 o20 o21 where
    u5: "u5 = o18" and
    d5: "displayed s5 = displayed s4 @ [(5, Obj o21)]" and
    e5: "events s5 = events s4 @
       [(5, Getattr (Obj o7) ''apply_rows'', Inr o17),
        (5, Call (Obj o17) [Function expensive]
            [(''incols'', PyDict [(''price'', Str ''x'')]),
                (''outcols'', PyDict [(''price_index'', Builtin ''int'')])], Inr o18),
        (5, Getitem (Obj o18) (PyList [Str ''price'', Str ''price_index'']), Inr o19),
        (5, Getattr (Obj o19) ''head'', Inr o20),
        (5, Call (Obj o20) [] [], Inr o21)]"
    by auto
  from cell_6_returns[OF c6] u5 obtain o22 o23 o24 o25 o26 o27 o28 o29 o30 o31 o32 o33 o34 o35 o36 o37 o38 where
    u6: "u6 = (o23, o38)" and
    d6: "displayed s6 = displayed s5" and
    e6: "events s6 = events s5 @
       [(6, Import_from ''cuml.dask.linear_model'' ''LinearRegression'', Inr o22),
        (6, Import ''numpy'', Inr o23),
        (6, Getitem (Obj o18) (PyList [Str ''reviews_per_month'', Str ''minimum_nights'']), Inr o24),
        (6, Getattr (Obj o24) ''astype'', Inr o25),
        (6, Getattr (Obj o23) ''float32'', Inr o26),
        (6, Call (Obj o25) [Obj o26] [], Inr o27),
        (6, Getattr (Obj o27) ''dropna'', Inr o28),
        (6, Call (Obj o28) [] [], Inr o29),
        (6, Getitem (Obj o18) (PyList [Str ''price'']), Inr o30),
        (6, Getattr (Obj o30) ''astype'', Inr o31),
        (6, Getattr (Obj o23) ''float32'', Inr o32),
        (6, Call (Obj o31) [Obj o32] [], Inr o33),
        (6, Getattr (Obj o33) ''dropna'', Inr o34),
        (6, Call (Obj o34) [] [], Inr o35),
        (6, Call (Obj o22) [] [], Inr o36),
        (6, Getattr (Obj o36) ''fit'', Inr o37),
        (6, Call (Obj o37) [Obj o29, Obj o35] [], Inr o38)]"
    by auto
  from cell_7_returns[OF c7] u3 u6 obtain o39 o40 o41 o42 o43 o44 o45 o46 o47 o48 o49 o50 o51 o52 where
    d7: "displayed s' = displayed s6 @ [(7, Obj o52)]" and
    e7: "events s' = events s6 @
       [(7, Getattr (Obj o5) ''read_csv'', Inr o39),
        (7, Call (Obj o39) [Str ''test*.csv''] [], Inr o40),
        (7, Getitem (Obj o40) (PyList [Str ''reviews_per_month'', Str ''minimum_nights'']), Inr o41),
        (7, Getattr (Obj o41) ''astype'', Inr o42),
        (7, Getattr (Obj o23) ''float32'', Inr o43),
        (7, Call (Obj o42) [Obj o43] [], Inr o44),
        (7, Getattr (Obj o44) ''dropna'', Inr o45),
        (7, Call (Obj o45) [] [], Inr o46),
        (7, Getattr (Obj o38) ''predict'', Inr o47),
        (7, Call (Obj o47) [Obj o46] [], Inr o48),
        (7, Getattr (Obj o48) ''compute'', Inr o49),
        (7, Call (Obj o49) [] [], Inr o50),
        (7, Getattr (Obj o50) ''head'', Inr o51),
        (7, Call (Obj o51) [] [], Inr o52)]"
    by auto
  have ev: "events s' =
       [(1, Shell ''nvidia-smi'', Inr o0),
        (2, Import_from ''dask_cuda'' ''LocalCUDACluster'', Inr o1),
        (2, Import_from ''dask.distributed'' ''Client'', Inr o2),
        (2, Call (Obj o1) [] [], Inr o3),
        (2, Call (Obj o2) [Obj o3] [], Inr o4),
        (3, Import ''dask_cudf'', Inr o5),
        (3, Getattr (Obj o5) ''read_csv'', Inr o6),
        (3, Call (Obj o6) [Str ''listings*.csv''] [], Inr o7),
        (3, Getattr (Obj o7) ''head'', Inr o8),
        (3, Call (Obj o8) [] [], Inr o9),
        (4, Getattr (Obj o7) ''groupby'', Inr o10),
        (4, Call (Obj o10) [PyList [Str ''neighbourhood'', Str ''room_type'']] [], Inr o11),
        (4, Getattr (Obj o11) ''price'', Inr o12),
        (4, Getattr (Obj o12) ''mean'', Inr o13),
        (4, Call (Obj o13) [] [], Inr o14),
        (4, Getattr (Obj o14) ''compute'', Inr o15),
        (4, Call (Obj o15) [] [], Inr o16),
        (5, Getattr (Obj o7) ''apply_rows'', Inr o17),
        (5, Call (Obj o17) [Function expensive]
            [(''incols'', PyDict [(''price'', Str ''x'')]),
                (''outcols'', PyDict [(''price_index'', Builtin ''int'')])], Inr o18),
        (5, Getitem (Obj o18) (PyList [Str ''price'', Str ''price_index'']), Inr o19),
        (5, Getattr (Obj o19) ''head'', Inr o20),
        (5, Call (Obj o20) [] [], Inr o21),
        (6, Import_from ''cuml.dask.linear_model'' ''LinearRegression'', Inr o22),
        (6, Import ''numpy'', Inr o23),
        (6, Getitem (Obj o18) (PyList [Str ''reviews_per_month'', Str ''minimum_nights'']), Inr o24),
        (6, Getattr (Obj o24) ''astype'', Inr o25),
        (6, Getattr (Obj o23) ''float32'', Inr o26),
        (6, Call (Obj o25) [Obj o26] [], Inr o27),
        (6, Getattr (Obj o27) ''dropna'', Inr o28),
        (6, Call (Obj o28) [] [], Inr o29),
        (6, Getitem (Obj o18) (PyList [Str ''price'']), Inr o30),
        (6, Getattr (Obj o30) ''astype'', Inr o31),
        (6, Getattr (Obj o23) ''float32'', Inr o32),
        (6, Call (Obj o31) [Obj o32] [], Inr o33),
        (6, Getattr (Obj o33) ''dropna'', Inr o34),
        (6, Call (Obj o34) [] [], Inr o35),
        (6, Call (Obj o22) [] [], Inr o36),
        (6, Getattr (Obj o36) ''fit'', Inr o37),
        (6, Call (Obj o37) [Obj o29, Obj o35] [], Inr o38),
        (7, Getattr (Obj o5) ''read_csv'', Inr o39),
        (7, Call (Obj o39) [Str ''test*.csv''] [], Inr o40),
        (7, Getitem (Obj o40) (PyList [Str ''reviews_per_month'', Str ''minimum_nights'']), Inr o41),
        (7, Getattr (Obj o41) ''astype'', Inr o42),
        (7, Getattr (Obj o23) ''float32'', Inr o43),
        (7, Call (Obj o42) [Obj o43] [], Inr o44),
        (7, Getattr (Obj o44) ''dropna'', Inr o45),
        (7, Call (Obj o45) [] [], Inr o46),
        (7, Getattr (Obj o38) ''predict'', Inr o47),
        (7, Call (Obj o47) [Obj o46] [], Inr o48),
        (7, Getattr (Obj o48) ''compute'', Inr o49),
        (7, Call (Obj o49) [] [], Inr o50),
        (7, Getattr (Obj o50) ''head'', Inr o51),
        (7, Call (Obj o51) [] [], Inr o52)]"
    by (simp only: e7 e6 e5 e4 e3 e2 e1 append.simps)
  have di: "displayed s' = [(1, Obj o0), (3, Obj o9), (4, Obj o16), (5, Obj o21), (7, Obj o52)]"
    by (simp only: d7 d6 d5 d4 d3 d2 d1 append.simps)
  have r: "returned s' 0 = o0" "returned s' 1 = o1" "returned s' 2 = o2" "returned s' 3 = o3"
    "returned s' 4 = o4" "returned s' 5 = o5" "returned s' 6 = o6" "returned s' 7 = o7"
    "returned s' 8 = o8" "returned s' 9 = o9" "returned s' 10 = o10" "returned s' 11 = o11"
    "returned s' 12 = o12" "returned s' 13 = o13" "returned s' 14 = o14" "returned s' 15 = o15"
    "returned s' 16 = o16" "returned s' 17 = o17" "returned s' 18 = o18" "returned s' 19 = o19"
    "returned s' 20 = o20" "returned s' 21 = o21" "returned s' 22 = o22" "returned s' 23 = o23"
    "returned s' 24 = o24" "returned s' 25 = o25" "returned s' 26 = o26" "returned s' 27 = o27"
    "returned s' 28 = o28" "returned s' 29 = o29" "returned s' 30 = o30" "returned s' 31 = o31"
    "returned s' 32 = o32" "returned s' 33 = o33" "returned s' 34 = o34" "returned s' 35 = o35"
    "returned s' 36 = o36" "returned s' 37 = o37" "returned s' 38 = o38" "returned s' 39 = o39"
    "returned s' 40 = o40" "returned s' 41 = o41" "returned s' 42 = o42" "returned s' 43 = o43"
    "returned s' 44 = o44" "returned s' 45 = o45" "returned s' 46 = o46" "returned s' 47 = o47"
    "returned s' 48 = o48" "returned s' 49 = o49" "returned s' 50 = o50" "returned s' 51 = o51"
    "returned s' 52 = o52"
    unfolding returned_def ev by simp_all
  show ?thesis
    unfolding listing_def r by (simp only: ev di)
qed

lemma listing_skeleton: "map skeleton (listing \<sigma>) = notebook_ops"
  by (simp add: listing_def skeleton_def notebook_ops_def cell_1_ops_def cell_2_ops_def
      cell_3_ops_def cell_4_ops_def cell_5_ops_def cell_6_ops_def cell_7_ops_def)

subsection \<open>The claims about the notebook\<close>

text \<open>
  C1, as stated, fails on cell 5 and on cell 6. Cell 5 hands a function written in the
  notebook, \<open>expensive\<close>, to the library's \<open>apply_rows\<close>, and that function branches on
  the data: the prices 10, 50, 99, 100, 7 get the indices 0, 1, 1, 2, 0. Cell 6 is not a
  single call either: it issues seventeen operations.
\<close>

theorem notebook_hands_expensive_to_apply_rows:
  "(5, Call (Obj 17) [Function expensive]
       [(''incols'', PyDict [(''price'', Str ''x'')]),
           (''outcols'', PyDict [(''price_index'', Builtin ''int'')])], Inr 18)
     \<in> set (events (snd (notebook numbering_shell (numbering :: (nat, unit, nat) library) (start 0)))) \<and>
   count_list
     (map fst (events (snd (notebook numbering_shell (numbering :: (nat, unit, nat) library) (start 0)))))
     6 = 17 \<and>
   expensive 0 1 listing_arrays = Inr (listing_arrays(1 := [0, 1, 1, 2, 0, 9])) \<and>
   listing_arrays 0 = [10, 50, 99, 100, 7]"
proof -
  have "listing_arrays 0 = [10, 50, 99, 100, 7]" by (simp add: listing_arrays_def)
  with listing_arrays_run show ?thesis by (simp add: numbering_run)
qed

text \<open>
  C1, amended. Every step of the notebook is a straight-line sequence of operations on
  the outside (one shell command; imports, attribute lookups, indexing and calls on
  external libraries), with no branching, retry or state management of its own between
  them: for every shell and every library, from every session, each cell issues the
  operations of its listing (their kind, names and literal arguments), in order,
  whatever they return, and stops at the first one that raises; and so does the notebook when its cells are run in sequence by a runner
  that stops at the first failing cell. One function defined in the repository reaches a
  library: \<open>expensive\<close>, which step (e) passes as an argument to \<open>apply_rows\<close>
  (operation 18, in cell 5; operation 17 is the lookup of \<open>apply_rows\<close> on the frame
  loaded in step (c)); no other operation of the listing, and none of a completed run,
  receives a function of the repository.
\<close>

theorem notebook_straight_line:
  "straight_line (cell_1 sh) (map (Pair 1) cell_1_ops) \<and>
   straight_line (cell_2 lib) (map (Pair 2) cell_2_ops) \<and>
   straight_line (cell_3 lib) (map (Pair 3) cell_3_ops) \<and>
   straight_line (cell_4 lib df) (map (Pair 4) cell_4_ops) \<and>
   straight_line (cell_5 lib df) (map (Pair 5) cell_5_ops) \<and>
   straight_line (cell_6 lib df) (map (Pair 6) cell_6_ops) \<and>
   straight_line (cell_7 lib dask_cudf np fit) (map (Pair 7) cell_7_ops) \<and>
   straight_line (notebook sh lib) notebook_ops \<and>
   concat (map (functions_passed \<circ> snd) notebook_ops) = [expensive] \<and>
   functions_passed (snd (notebook_ops ! 18)) = [expensive] \<and>
   (\<forall>w u s'. notebook sh lib (start w) = (Inr u, s') \<longrightarrow>
      concat (map (functions_passed \<circ> fst \<circ> snd) (events s')) = [expensive] \<and>
      events s' ! 17 =
        (5, Getattr (Obj (returned s' 7)) ''apply_rows'', Inr (returned s' 17)) \<and>
      events s' ! 18 =
        (5, Call (Obj (returned s' 17)) [Function expensive]
            [(''incols'', PyDict [(''price'', Str ''x'')]),
                (''outcols'', PyDict [(''price_index'', Builtin ''int'')])], Inr (returned s' 18)))"
proof -
  have f: "concat (map (functions_passed \<circ> snd) notebook_ops) = [expensive]"
    by (simp add: notebook_ops_def cell_1_ops_def cell_2_ops_def cell_3_ops_def cell_4_ops_def
        cell_5_ops_def cell_6_ops_def cell_7_ops_def)
  have g: "functions_passed (snd (notebook_ops ! 18)) = [expensive]"
    by (simp add: notebook_ops_def cell_1_ops_def cell_2_ops_def cell_3_ops_def cell_4_ops_def
        cell_5_ops_def cell_6_ops_def cell_7_ops_def)
  have h: "concat (map (functions_passed \<circ> fst \<circ> snd) (events s')) = [expensive] \<and>
      events s' ! 17 =
        (5, Getattr (Obj (returned s' 7)) ''apply_rows'', Inr (returned s' 17)) \<and>
      events s' ! 18 =
        (5, Call (Obj (returned s' 17)) [Function expensive]
            [(''incols'', PyDict [(''price'', Str ''x'')]),
                (''outcols'', PyDict [(''price_index'', Builtin ''int'')])], Inr (returned s' 18))"
    if run: "notebook sh lib (start w) = (Inr u, s')" for w u s'
  proof -
    from completed_run[OF run] have e: "events s' = listing (returned s')" by simp
    show ?thesis unfolding e by (simp add: listing_def)
  qed
  from f g h cell_1_issues[of sh] cell_2_issues[of lib] cell_3_issues[of lib]
    cell_4_issues[of lib df] cell_5_issues[of lib df] cell_6_issues[of lib df]
    cell_7_issues[of lib dask_cudf np fit] notebook_issues[of sh lib]
  show ?thesis by blast
qed

theorem notebook_straight_line_witness:
  "fst (notebook numbering_shell (numbering :: (nat, unit, nat) library) (start 0)) = Inr () \<and>
   map skeleton (events (snd (notebook numbering_shell (numbering :: (nat, unit, nat) library) (start 0)))) =
     notebook_ops \<and>
   length (events (snd (notebook numbering_shell (numbering :: (nat, unit, nat) library) (start 0)))) = 53 \<and>
   concat (map (functions_passed \<circ> fst \<circ> snd)
     (events (snd (notebook numbering_shell (numbering :: (nat, unit, nat) library) (start 0))))) = [expensive]"
proof -
  let ?run = "notebook numbering_shell (numbering :: (nat, unit, nat) library) (start 0)"
  note t = notebook_straight_line[where sh = numbering_shell
      and lib = "numbering :: (nat, unit, nat) library"]
  have r: "fst ?run = Inr ()" by (simp add: numbering_run)
  have r': "?run = (Inr (), snd ?run)" by (simp add: numbering_run)
  from t have "straight_line (notebook numbering_shell (numbering :: (nat, unit, nat) library))
      notebook_ops"
    by blast
  from this[unfolded straight_line_def, rule_format, of "start 0"] r
  have "map skeleton (events (snd ?run)) = notebook_ops"
    by (auto simp: outcome_ok_def start_def)
  moreover have "length (events (snd ?run)) = 53" by (simp add: numbering_run)
  moreover from t r' have "concat (map (functions_passed \<circ> fst \<circ> snd) (events (snd ?run))) =
      [expensive]"
    by blast
  ultimately show ?thesis using r by blast
qed

text \<open>
  C5. For every shell, every library and every world, a run of the notebook that
  completes has executed the cells 1 to 7 in this order and has issued exactly the
  operations of \<open>listing\<close>, in that order, each on the objects that earlier operations
  returned (\<open>returned s' k\<close> is the object that operation \<open>k\<close> returned). Cell by cell these
  are the operations of the claim:
  (a) cell 1 queries the visible devices with \<open>nvidia-smi\<close> (operation 0);
  (b) cell 2 starts a \<open>LocalCUDACluster\<close> (operation 3) and connects a client to it;
  (c) cell 3 loads the CSV files \<open>listings*.csv\<close> into a \<open>dask_cudf\<close> frame (operations 6
      and 7) and shows its head;
  (d) cell 4 runs the groupby/aggregate query on that frame (operations 10 to 16);
  (e) cell 5 applies \<open>expensive\<close> to its rows with \<open>apply_rows\<close> (operations 17 and 18);
  (f) cell 6 fits a \<open>LinearRegression\<close> on columns of the resulting frame (operations 36
      to 38);
  (g) cell 7 loads \<open>test*.csv\<close> (operations 39 and 40) and scores it with \<open>predict\<close> of the
      fitted model (operations 47 and 48).
\<close>

theorem notebook_operations_in_order:
  assumes "notebook sh lib (start w) = (Inr u, s')"
  shows "events s' = listing (returned s') \<and>
         remdups_adj (map fst (events s')) = [1, 2, 3, 4, 5, 6, 7]"
proof -
  from completed_run[OF assms] have e: "events s' = listing (returned s')" by simp
  show ?thesis unfolding e by (simp add: listing_def)
qed

theorem notebook_operations_in_order_witness:
  "notebook numbering_shell (numbering :: (nat, unit, nat) library) (start 0) =
     (Inr (), snd (notebook numbering_shell (numbering :: (nat, unit, nat) library) (start 0))) \<and>
   events (snd (notebook numbering_shell (numbering :: (nat, unit, nat) library) (start 0))) =
     listing (\<lambda>k. k) \<and>
   remdups_adj
     (map fst (events (snd (notebook numbering_shell (numbering :: (nat, unit, nat) library) (start 0)))))
     = [1, 2, 3, 4, 5, 6, 7]"
proof -
  let ?run = "notebook numbering_shell (numbering :: (nat, unit, nat) library) (start 0)"
  have r: "?run = (Inr (), snd ?run)" by (simp add: numbering_run)
  have l: "events (snd ?run) = listing (\<lambda>k. k)" by (simp add: numbering_run listing_def)
  from notebook_operations_in_order[OF r]
  have "remdups_adj (map fst (events (snd ?run))) = [1, 2, 3, 4, 5, 6, 7]" by (rule conjunct2)
  with r l show ?thesis by blast
qed

text \<open>
  C6, as stated, counts three outputs. A run shows five: the first is what \<open>nvidia-smi\<close>
  printed (cell 1), the second the head of the frame just loaded from \<open>listings*.csv\<close>
  (cell 3).
\<close>

theorem notebook_also_displays_devices_and_frame:
  "length (displayed (snd (notebook numbering_shell (numbering :: (nat, unit, nat) library) (start 0))))
     = 5 \<and>
   displayed (snd (notebook numbering_shell (numbering :: (nat, unit, nat) library) (start 0))) ! 0 =
     (1, Obj 0) \<and>
   events (snd (notebook numbering_shell (numbering :: (nat, unit, nat) library) (start 0))) ! 0 =
     (1, Shell ''nvidia-smi'', Inr 0) \<and>
   displayed (snd (notebook numbering_shell (numbering :: (nat, unit, nat) library) (start 0))) ! 1 =
     (3, Obj 9) \<and>
   events (snd (notebook numbering_shell (numbering :: (nat, unit, nat) library) (start 0))) ! 9 =
     (3, Call (Obj 8) [] [], Inr 9) \<and>
   events (snd (notebook numbering_shell (numbering :: (nat, unit, nat) library) (start 0))) ! 8 =
     (3, Getattr (Obj 7) ''head'', Inr 8) \<and>
   events (snd (notebook numbering_shell (numbering :: (nat, unit, nat) library) (start 0))) ! 7 =
     (3, Call (Obj 6) [Str ''listings*.csv''] [], Inr 7) \<and>
   events (snd (notebook numbering_shell (numbering :: (nat, unit, nat) library) (start 0))) ! 6 =
     (3, Getattr (Obj 5) ''read_csv'', Inr 6)"
  by (simp add: numbering_run)

text \<open>
  C6, amended. For every shell, every library and every world, a run of the notebook
  that completes shows exactly five values, in this order: what \<open>nvidia-smi\<close> printed
  (cell 1, operation 0), the head of the frame loaded from \<open>listings*.csv\<close> (cell 3,
  operation 9 on the frame of operation 7), the grouped price-mean table (cell 4, the
  result of \<open>compute\<close>, operation 16), the head of the \<open>price\<close> and \<open>price_index\<close>
  columns (cell 5, operation 21 on the columns of operation 19) and the head of the
  predicted prices (cell 7, operation 52). Nothing else is shown.
\<close>

theorem notebook_outputs:
  assumes "notebook sh lib (start w) = (Inr u, s')"
  shows "displayed s' =
           [(1, Obj (returned s' 0)), (3, Obj (returned s' 9)), (4, Obj (returned s' 16)),
               (5, Obj (returned s' 21)), (7, Obj (returned s' 52))] \<and>
         events s' ! 0 =
           (1, Shell ''nvidia-smi'', Inr (returned s' 0)) \<and>
         events s' ! 6 =
           (3, Getattr (Obj (returned s' 5)) ''read_csv'', Inr (returned s' 6)) \<and>
         events s' ! 7 =
           (3, Call (Obj (returned s' 6)) [Str ''listings*.csv''] [], Inr (returned s' 7)) \<and>
         events s' ! 8 =
           (3, Getattr (Obj (returned s' 7)) ''head'', Inr (returned s' 8)) \<and>
         events s' ! 9 =
           (3, Call (Obj (returned s' 8)) [] [], Inr (returned s' 9)) \<and>
         events s' ! 15 =
           (4, Getattr (Obj (returned s' 14)) ''compute'', Inr (returned s' 15)) \<and>
         events s' ! 16 =
           (4, Call (Obj (returned s' 15)) [] [], Inr (returned s' 16)) \<and>
         events s' ! 19 =
           (5, Getitem (Obj (returned s' 18)) (PyList [Str ''price'', Str ''price_index'']),
               Inr (returned s' 19)) \<and>
         events s' ! 20 =
           (5, Getattr (Obj (returned s' 19)) ''head'', Inr (returned s' 20)) \<and>
         events s' ! 21 =
           (5, Call (Obj (returned s' 20)) [] [], Inr (returned s' 21)) \<and>
         events s' ! 51 =
           (7, Getattr (Obj (returned s' 50)) ''head'', Inr (returned s' 51)) \<and>
         events s' ! 52 =
           (7, Call (Obj (returned s' 51)) [] [], Inr (returned s' 52))"
proof -
  from completed_run[OF assms] have e: "events s' = listing (returned s')" and
    d: "displayed s' =
           [(1, Obj (returned s' 0)), (3, Obj (returned s' 9)), (4, Obj (returned s' 16)),
               (5, Obj (returned s' 21)), (7, Obj (returned s' 52))]"
    by simp_all
  show ?thesis unfolding e d by (simp add: listing_def)
qed

theorem notebook_outputs_witness:
  "notebook numbering_shell (numbering :: (nat, unit, nat) library) (start 0) =
     (Inr (), snd (notebook numbering_shell (numbering :: (nat, unit, nat) library) (start 0))) \<and>
   displayed (snd (notebook numbering_shell (numbering :: (nat, unit, nat) library) (start 0))) =
     [(1, Obj 0), (3, Obj 9), (4, Obj 16), (5, Obj 21), (7, Obj 52)]"
proof -
  let ?run = "notebook numbering_shell (numbering :: (nat, unit, nat) library) (start 0)"
  have r: "?run = (Inr (), snd ?run)" by (simp add: numbering_run)
  have k: "returned (snd ?run) 0 = 0" "returned (snd ?run) 9 = 9" "returned (snd ?run) 16 = 16" "returned (snd ?run) 21 = 21" "returned (snd ?run) 52 = 52"
    by (simp_all add: returned_def numbering_run)
  from notebook_outputs[OF r]
  have "displayed (snd ?run) =
           [(1, Obj (returned (snd ?run) 0)), (3, Obj (returned (snd ?run) 9)),
            (4, Obj (returned (snd ?run) 16)), (5, Obj (returned (snd ?run) 21)),
            (7, Obj (returned (snd ?run) 52))]"
    by (rule conjunct1)
  with r show ?thesis unfolding k by blast
qed

text \<open>
  C7, as stated, fails on step (a). When \<open>nvidia-smi\<close> fails (here with exit status 127,
  as when it is not installed), nothing is raised: the status is stored, what the shell
  printed is shown, and the run goes on with step (b) and through all 53 operations to
  the end.
\<close>

theorem failing_nvidia_smi_does_not_abort:
  "fst (fst (failing_shell ''nvidia-smi'' 0)) = 127 \<and>
   fst (notebook failing_shell (numbering :: (nat, unit, nat) library) (start 0)) = Inr () \<and>
   exit_code (snd (notebook failing_shell (numbering :: (nat, unit, nat) library) (start 0))) =
     Some 127 \<and>
   length (events (snd (notebook failing_shell (numbering :: (nat, unit, nat) library) (start 0)))) =
     53 \<and>
   events (snd (notebook failing_shell (numbering :: (nat, unit, nat) library) (start 0))) ! 0 =
     (1, Shell ''nvidia-smi'', Inr 0) \<and>
   events (snd (notebook failing_shell (numbering :: (nat, unit, nat) library) (start 0))) ! 1 =
     (2, Import_from ''dask_cuda'' ''LocalCUDACluster'', Inr 1) \<and>
   filter raised
     (events (snd (notebook failing_shell (numbering :: (nat, unit, nat) library) (start 0)))) = [] \<and>
   map fst (displayed (snd (notebook failing_shell (numbering :: (nat, unit, nat) library) (start 0)))) =
     [1, 3, 4, 5, 7]"
  by (simp add: failing_shell_run raised_def) (simp add: failing_shell_def)

text \<open>
  C7, amended. No error handling, retry or recovery is written in the notebook. For
  every operation other than the shell command of step (a), a failure is an exception
  that the library raises, and it is never caught: for every shell and every library,
  from every session, an operation that raises is the last one its cell issues and its
  exception is the result of the cell, so nothing is attempted again and the rest of
  the cell is not run; a cell fails only with the exception of its last operation; and
  the same holds of the notebook when its cells are run in sequence by a runner that
  stops at the first failing cell, so that the remaining steps are not run, and the
  operations such a run issues are an initial part of the listing, none twice. The shell
  command of step (a) is the exception: whatever its exit status, cell 1 raises
  nothing and completes; the status is only stored.
\<close>

theorem notebook_errors_propagate:
  "stops_at_raise (cell_2 lib) \<and>
   stops_at_raise (cell_3 lib) \<and>
   stops_at_raise (cell_4 lib df) \<and>
   stops_at_raise (cell_5 lib df) \<and>
   stops_at_raise (cell_6 lib df) \<and>
   stops_at_raise (cell_7 lib dask_cudf np fit) \<and>
   stops_at_raise (notebook sh lib) \<and>
   (\<forall>s. prefix (map skeleton (drop (length (events s)) (events (snd (notebook sh lib s)))))
          notebook_ops) \<and>
   (\<forall>s. fst (cell_1 sh s) = Inr () \<and>
        exit_code (snd (cell_1 sh s)) = Some (fst (fst (sh ''nvidia-smi'' (world s)))) \<and>
        filter raised (events (snd (cell_1 sh s))) = filter raised (events s))"
proof -
  have c: "fst (cell_1 sh s) = Inr () \<and>
        exit_code (snd (cell_1 sh s)) = Some (fst (fst (sh ''nvidia-smi'' (world s)))) \<and>
        filter raised (events (snd (cell_1 sh s))) = filter raised (events s)" for s
    by (simp add: cell_1_def in_cell_def and_then_def bang_def display_def raised_def
        split: prod.splits)
  have p: "prefix (map skeleton (drop (length (events s)) (events (snd (notebook sh lib s)))))
          notebook_ops" for s
  proof -
    from notebook_issues[unfolded straight_line_def, rule_format, of sh lib s]
    obtain new where e: "events (snd (notebook sh lib s)) = events s @ new"
      and o: "outcome_ok notebook_ops (fst (notebook sh lib s)) new"
      by auto
    from o show ?thesis unfolding e by (simp add: outcome_ok_def)
  qed
  from c p straight_line_stops[OF cell_2_issues[of lib]]
    straight_line_stops[OF cell_3_issues[of lib]] straight_line_stops[OF cell_4_issues[of lib df]]
    straight_line_stops[OF cell_5_issues[of lib df]] straight_line_stops[OF cell_6_issues[of lib df]]
    straight_line_stops[OF cell_7_issues[of lib dask_cudf np fit]]
    straight_line_stops[OF notebook_issues[of sh lib]]
  show ?thesis by blast
qed

theorem notebook_errors_propagate_witness:
  "fst (notebook numbering_shell (raising_at 18) (start 0)) = Inl 18 \<and>
   length (events (snd (notebook numbering_shell (raising_at 18) (start 0)))) = 19 \<and>
   snd (snd (events (snd (notebook numbering_shell (raising_at 18) (start 0))) ! 18)) = Inl 18 \<and>
   fst (cell_1 failing_shell (start 0 :: (nat, nat, nat) session)) = Inr ()"
proof -
  let ?run = "notebook numbering_shell (raising_at 18) (start 0)"
  note t = notebook_errors_propagate[where sh = numbering_shell and lib = "raising_at 18"]
  have len: "(18::nat) < length (events (snd ?run)) \<and> snd (snd (events (snd ?run) ! 18)) = Inl 18"
    by (simp add: raising_run)
  from t have "stops_at_raise (notebook numbering_shell (raising_at 18))" by blast
  from this[unfolded stops_at_raise_def, rule_format, of "start 0"]
  obtain new where e: "events (snd ?run) = new"
    and a: "\<forall>i e. i < length new \<and> snd (snd (new ! i)) = Inl e \<longrightarrow>
           Suc i = length new \<and> fst ?run = Inl e"
    by (auto simp: start_def)
  from a len have "fst ?run = Inl 18 \<and> Suc 18 = length (events (snd ?run))"
    unfolding e by blast
  moreover have "fst (cell_1 failing_shell (start 0 :: (nat, nat, nat) session)) = Inr ()"
    by (simp add: cell_1_def in_cell_def and_then_def bang_def display_def failing_shell_def)
  ultimately show ?thesis using len by simp
qed

text \<open>
  C10. For every shell, every library and every world, in a run of the notebook that
  completes: the value shown last is the object returned by operation 52, \<open>head\<close> (51) of
  \<open>compute\<close> (49, 50) of \<open>fit.predict(X_test)\<close> (47, 48). The receiver of \<open>predict\<close> is the
  object returned by operation 38, \<open>LinearRegression().fit(X, y)\<close> of cell 6, where \<open>X\<close>
  (29) and \<open>y\<close> (35) are columns of the first dataset (18, the frame loaded from
  \<open>listings*.csv\<close> after \<open>apply_rows\<close>), cast to \<open>float32\<close> with \<open>dropna\<close> applied. The
  argument of \<open>predict\<close> is the object returned by operation 46: the \<open>reviews_per_month\<close>
  and \<open>minimum_nights\<close> columns (41) of the second dataset (40, loaded from \<open>test*.csv\<close>),
  cast to \<open>float32\<close> (42 to 44) with \<open>dropna\<close> applied (45, 46). No variable is bound again
  between the fit and its use.
\<close>

theorem predictions_from_fitted_model:
  assumes "notebook sh lib (start w) = (Inr u, s')"
  shows "last (displayed s') = (7, Obj (returned s' 52)) \<and>
    events s' ! 5 =
      (3, Import ''dask_cudf'', Inr (returned s' 5)) \<and>
    events s' ! 6 =
      (3, Getattr (Obj (returned s' 5)) ''read_csv'', Inr (returned s' 6)) \<and>
    events s' ! 7 =
      (3, Call (Obj (returned s' 6)) [Str ''listings*.csv''] [], Inr (returned s' 7)) \<and>
    events s' ! 17 =
      (5, Getattr (Obj (returned s' 7)) ''apply_rows'', Inr (returned s' 17)) \<and>
    events s' ! 18 =
      (5, Call (Obj (returned s' 17)) [Function expensive]
          [(''incols'', PyDict [(''price'', Str ''x'')]),
              (''outcols'', PyDict [(''price_index'', Builtin ''int'')])], Inr (returned s' 18)) \<and>
    events s' ! 22 =
      (6, Import_from ''cuml.dask.linear_model'' ''LinearRegression'', Inr (returned s' 22)) \<and>
    events s' ! 23 =
      (6, Import ''numpy'', Inr (returned s' 23)) \<and>
    events s' ! 24 =
      (6,
          Getitem (Obj (returned s' 18)) (PyList [Str ''reviews_per_month'',
              Str ''minimum_nights'']), Inr (returned s' 24)) \<and>
    events s' ! 25 =
      (6, Getattr (Obj (returned s' 24)) ''astype'', Inr (returned s' 25)) \<and>
    events s' ! 26 =
      (6, Getattr (Obj (returned s' 23)) ''float32'', Inr (returned s' 26)) \<and>
    events s' ! 27 =
      (6, Call (Obj (returned s' 25)) [Obj (returned s' 26)] [], Inr (returned s' 27)) \<and>
    events s' ! 28 =
      (6, Getattr (Obj (returned s' 27)) ''dropna'', Inr (returned s' 28)) \<and>
    events s' ! 29 =
      (6, Call (Obj (returned s' 28)) [] [], Inr (returned s' 29)) \<and>
    events s' ! 30 =
      (6, Getitem (Obj (returned s' 18)) (PyList [Str ''price'']), Inr (returned s' 30)) \<and>
    events s' ! 31 =
      (6, Getattr (Obj (returned s' 30)) ''astype'', Inr (returned s' 31)) \<and>
    events s' ! 32 =
      (6, Getattr (Obj (returned s' 23)) ''float32'', Inr (returned s' 32)) \<and>
    events s' ! 33 =
      (6, Call (Obj (returned s' 31)) [Obj (returned s' 32)] [], Inr (returned s' 33)) \<and>
    events s' ! 34 =
      (6, Getattr (Obj (returned s' 33)) ''dropna'', Inr (returned s' 34)) \<and>
    events s' ! 35 =
      (6, Call (Obj (returned s' 34)) [] [], Inr (returned s' 35)) \<and>
    events s' ! 36 =
      (6, Call (Obj (returned s' 22)) [] [], Inr (returned s' 36)) \<and>
    events s' ! 37 =
      (6, Getattr (Obj (returned s' 36)) ''fit'', Inr (returned s' 37)) \<and>
    events s' ! 38 =
      (6, Call (Obj (returned s' 37)) [Obj (returned s' 29), Obj (returned s' 35)] [],
          Inr (returned s' 38)) \<and>
    events s' ! 39 =
      (7, Getattr (Obj (returned s' 5)) ''read_csv'', Inr (returned s' 39)) \<and>
    events s' ! 40 =
      (7, Call (Obj (returned s' 39)) [Str ''test*.csv''] [], Inr (returned s' 40)) \<and>
    events s' ! 41 =
      (7,
          Getitem (Obj (returned s' 40)) (PyList [Str ''reviews_per_month'',
              Str ''minimum_nights'']), Inr (returned s' 41)) \<and>
    events s' ! 42 =
      (7, Getattr (Obj (returned s' 41)) ''astype'', Inr (returned s' 42)) \<and>
    events s' ! 43 =
      (7, Getattr (Obj (returned s' 23)) ''float32'', Inr (returned s' 43)) \<and>
    events s' ! 44 =
      (7, Call (Obj (returned s' 42)) [Obj (returned s' 43)] [], Inr (returned s' 44)) \<and>
    events s' ! 45 =
      (7, Getattr (Obj (returned s' 44)) ''dropna'', Inr (returned s' 45)) \<and>
    events s' ! 46 =
      (7, Call (Obj (returned s' 45)) [] [], Inr (returned s' 46)) \<and>
    events s' ! 47 =
      (7, Getattr (Obj (returned s' 38)) ''predict'', Inr (returned s' 47)) \<and>
    events s' ! 48 =
      (7, Call (Obj (returned s' 47)) [Obj (returned s' 46)] [], Inr (returned s' 48)) \<and>
    events s' ! 49 =
      (7, Getattr (Obj (returned s' 48)) ''compute'', Inr (returned s' 49)) \<and>
    events s' ! 50 =
      (7, Call (Obj (returned s' 49)) [] [], Inr (returned s' 50)) \<and>
    events s' ! 51 =
      (7, Getattr (Obj (returned s' 50)) ''head'', Inr (returned s' 51)) \<and>
    events s' ! 52 =
      (7, Call (Obj (returned s' 51)) [] [], Inr (returned s' 52)) \<and>
    length (events s') = 53"
proof -
  from completed_run[OF assms] have e: "events s' = listing (returned s')" and
    d: "displayed s' =
           [(1, Obj (returned s' 0)), (3, Obj (returned s' 9)), (4, Obj (returned s' 16)),
               (5, Obj (returned s' 21)), (7, Obj (returned s' 52))]"
    by simp_all
  show ?thesis unfolding e d by (simp add: listing_def)
qed

theorem predictions_from_fitted_model_witness:
  "notebook numbering_shell (numbering :: (nat, unit, nat) library) (start 0) =
     (Inr (), snd (notebook numbering_shell (numbering :: (nat, unit, nat) library) (start 0))) \<and>
   last (displayed (snd (notebook numbering_shell (numbering :: (nat, unit, nat) library) (start 0)))) =
     (7, Obj 52) \<and>
   events (snd (notebook numbering_shell (numbering :: (nat, unit, nat) library) (start 0))) ! 48 =
     (7, Call (Obj 47) [Obj 46] [], Inr 48) \<and>
   events (snd (notebook numbering_shell (numbering :: (nat, unit, nat) library) (start 0))) ! 47 =
     (7, Getattr (Obj 38) ''predict'', Inr 47) \<and>
   events (snd (notebook numbering_shell (numbering :: (nat, unit, nat) library) (start 0))) ! 38 =
     (6, Call (Obj 37) [Obj 29, Obj 35] [], Inr 38)"
proof -
  let ?run = "notebook numbering_shell (numbering :: (nat, unit, nat) library) (start 0)"
  have r: "?run = (Inr (), snd ?run)" by (simp add: numbering_run)
  have k: "returned (snd ?run) 52 = 52" "returned (snd ?run) 48 = 48" "returned (snd ?run) 47 = 47" "returned (snd ?run) 46 = 46" "returned (snd ?run) 38 = 38" "returned (snd ?run) 37 = 37" "returned (snd ?run) 35 = 35" "returned (snd ?run) 29 = 29"
    by (simp_all add: returned_def numbering_run)
  from predictions_from_fitted_model[OF r]
  have "last (displayed (snd ?run)) = (7, Obj (returned (snd ?run) 52))"
    and "events (snd ?run) ! 48 =
           (7, Call (Obj (returned (snd ?run) 47)) [Obj (returned (snd ?run) 46)] [],
               Inr (returned (snd ?run) 48))"
    and "events (snd ?run) ! 47 =
           (7, Getattr (Obj (returned (snd ?run) 38)) ''predict'', Inr (returned (snd ?run) 47))"
    and "events (snd ?run) ! 38 =
           (6,
               Call (Obj (returned (snd ?run) 37)) [Obj (returned (snd ?run) 29),
                   Obj (returned (snd ?run) 35)] [], Inr (returned (snd ?run) 38))"
    by blast+
  with r show ?thesis unfolding k by blast
qed

end
